theory Spec2Isabelle
  imports Complex_Main "HOL-Library.Sublist"
begin

section \<open>Values at the request boundary\<close>

text \<open>
  \<^verbatim>\<open>express.json()\<close> hands the handlers of \<^verbatim>\<open>server.js\<close> whatever JSON the client sent,
  and the handlers test the properties they destructure for truthiness only. A value is
  therefore any JSON value. A number is kept as a rational: the handlers test numbers for
  zero and compare them, nothing more. An object is the list of its properties, read with
  \<open>map_of\<close>.
\<close>

datatype json =
    JNull
  | JBool bool
  | JNum rat
  | JStr string
  | JArr "json list"
  | JObj "(string \<times> json) list"

text \<open>A property read off an object: \<open>None\<close> is \<^verbatim>\<open>undefined\<close>.\<close>

type_synonym field = "json option"

text \<open>
  The test \<^verbatim>\<open>!x\<close> of the source: true of \<^verbatim>\<open>undefined\<close>, \<^verbatim>\<open>null\<close>, \<^verbatim>\<open>false\<close>, zero and
  the empty string, false of every other value, arrays and objects included.
\<close>

definition falsy :: "field \<Rightarrow> bool" where
  "falsy x =
     (case x of
        None \<Rightarrow> True
      | Some JNull \<Rightarrow> True
      | Some (JBool b) \<Rightarrow> \<not> b
      | Some (JNum n) \<Rightarrow> n = 0
      | Some (JStr s) \<Rightarrow> s = []
      | Some (JArr vs) \<Rightarrow> False
      | Some (JObj kvs) \<Rightarrow> False)"

text \<open>
  \<^verbatim>\<open>a === b\<close> for two values that do not stem from the same parse: primitives are compared
  by value, and an array or an object is identical to no value read elsewhere.
\<close>

fun strict_eq :: "json \<Rightarrow> json \<Rightarrow> bool" where
  "strict_eq JNull JNull = True"
| "strict_eq (JBool a) (JBool b) = (a = b)"
| "strict_eq (JNum a) (JNum b) = (a = b)"
| "strict_eq (JStr a) (JStr b) = (a = b)"
| "strict_eq _ _ = False"

definition strict_eq_opt :: "field \<Rightarrow> field \<Rightarrow> bool" where
  "strict_eq_opt a b =
     (case a of
        None \<Rightarrow> (case b of None \<Rightarrow> True | Some y \<Rightarrow> False)
      | Some x \<Rightarrow> (case b of None \<Rightarrow> False | Some y \<Rightarrow> strict_eq x y))"

text \<open>
  The built-ins of the language the handlers call. \<^verbatim>\<open>String.prototype.toLowerCase\<close> is
  not part of the repository: it is a parameter, and what is proved holds of whichever
  function folds the case. \<open>String_conv\<close> is what \<^verbatim>\<open>String(v)\<close> returns for a value \<open>v\<close>
  that is not a string.
\<close>

record builtins =
  toLowerCase :: "string \<Rightarrow> string"
  String_conv :: "json \<Rightarrow> string"

definition js_String :: "builtins \<Rightarrow> json \<Rightarrow> string" where
  "js_String js v = (case v of JStr s \<Rightarrow> s | _ \<Rightarrow> String_conv js v)"

text \<open>
  \<^verbatim>\<open>v.toLowerCase()\<close>: only a string has the method, on any other value the call throws a
  TypeError (\<open>None\<close>).
\<close>

definition lower_of :: "builtins \<Rightarrow> json \<Rightarrow> string option" where
  "lower_of js v = (case v of JStr s \<Rightarrow> Some (toLowerCase js s) | _ \<Rightarrow> None)"

text \<open>\<^verbatim>\<open>a.toLowerCase() === b.toLowerCase()\<close>, the left operand first.\<close>

definition same_lower :: "builtins \<Rightarrow> json \<Rightarrow> json \<Rightarrow> bool option" where
  "same_lower js a b =
     (case lower_of js a of
        None \<Rightarrow> None
      | Some x \<Rightarrow> (case lower_of js b of None \<Rightarrow> None | Some y \<Rightarrow> Some (x = y)))"

text \<open>
  \<^verbatim>\<open>Array.prototype.some\<close>, \<^verbatim>\<open>find\<close> and \<^verbatim>\<open>filter\<close> with a callback that may throw
  (\<open>None\<close>). \<^verbatim>\<open>some\<close> and \<^verbatim>\<open>find\<close> stop at the first element the callback accepts;
  \<^verbatim>\<open>filter\<close> visits every element.
\<close>

fun some_thr :: "('a \<Rightarrow> bool option) \<Rightarrow> 'a list \<Rightarrow> bool option" where
  "some_thr f [] = Some False"
| "some_thr f (x # xs) =
     (case f x of None \<Rightarrow> None | Some b \<Rightarrow> if b then Some True else some_thr f xs)"

fun find_thr :: "('a \<Rightarrow> bool option) \<Rightarrow> 'a list \<Rightarrow> 'a option option" where
  "find_thr f [] = Some None"
| "find_thr f (x # xs) =
     (case f x of None \<Rightarrow> None | Some b \<Rightarrow> if b then Some (Some x) else find_thr f xs)"

fun filter_thr :: "('a \<Rightarrow> bool option) \<Rightarrow> 'a list \<Rightarrow> 'a list option" where
  "filter_thr f [] = Some []"
| "filter_thr f (x # xs) =
     (case f x of
        None \<Rightarrow> None
      | Some b \<Rightarrow>
          (case filter_thr f xs of
             None \<Rightarrow> None
           | Some ys \<Rightarrow> Some (if b then x # ys else ys)))"

text \<open>\<^verbatim>\<open>s.includes(t)\<close>: \<open>t\<close> occurs in \<open>s\<close> as a contiguous run of characters.\<close>

fun str_includes :: "string \<Rightarrow> string \<Rightarrow> bool" where
  "str_includes [] t = (t = [])"
| "str_includes (c # cs) t = (prefix t (c # cs) \<or> str_includes cs t)"

text \<open>\<^verbatim>\<open>Date.now().toString()\<close>: the decimal digits of the clock reading.\<close>

definition digit_char :: "nat \<Rightarrow> char" where
  "digit_char d = char_of (48 + d)"

fun toString :: "nat \<Rightarrow> string" where
  "toString n =
     (if n < 10 then [digit_char n] else toString (n div 10) @ [digit_char (n mod 10)])"

declare toString.simps [simp del]

text \<open>\<^verbatim>\<open>Array.prototype.findIndex\<close>; \<open>None\<close> is the \<^verbatim>\<open>-1\<close> of the source.\<close>

fun findIndex :: "('a \<Rightarrow> bool) \<Rightarrow> 'a list \<Rightarrow> nat option" where
  "findIndex P [] = None"
| "findIndex P (x # xs) =
     (if P x then Some 0
      else (case findIndex P xs of None \<Rightarrow> None | Some i \<Rightarrow> Some (Suc i)))"


section \<open>Records of the three collections\<close>

text \<open>
  An account as signup writes it: the id and the hash are strings the handler made, the
  name and the email are the values the client sent, of whatever type.
\<close>

record account =
  acc_id :: string
  acc_name :: json
  acc_email :: json
  acc_passwordHash :: string

text \<open>
  An institution is whatever object the client posted (an array as body is left aside).
  The properties the handlers read may be undefined or of any type; the id is the number
  the catalog assigned; the remaining properties travel in the record's extension.
\<close>

record institution =
  uni_id :: int
  uni_name :: field
  uni_type :: field
  uni_colleges :: field

text \<open>An application as submit writes it: the client's values as they came.\<close>

record application =
  app_id :: int
  app_userId :: string
  app_fullName :: field
  app_birthDate :: field
  app_nationalId :: field
  app_address :: field
  app_phoneNumber :: field
  app_total :: field
  app_paymentMethod :: field
  app_applicantEmail :: field
  app_college :: field
  app_status :: string
  app_submittedAt :: string


section \<open>Backing files\<close>

text \<open>
  What \<^verbatim>\<open>fs.readFileSync\<close> followed by \<^verbatim>\<open>JSON.parse\<close> meets:
  \<^item> \<open>Absent\<close>, \<open>Unreadable\<close>: \<^verbatim>\<open>readFileSync\<close> throws;
  \<^item> \<open>Blank\<close>: the file is the empty string, so \<^verbatim>\<open>raw || default\<close> is the default text;
  \<^item> \<open>Malformed\<close>: \<^verbatim>\<open>JSON.parse\<close> throws;
  \<^item> \<open>Misshapen\<close>: the text parses, but the value does not hold the collection's array
    (\<^verbatim>\<open>users\<close> of an object, \<^verbatim>\<open>items\<close> of an object, or the array itself);
  \<^item> \<open>Stored xs\<close>: the text parses and holds the array \<open>xs\<close>.
\<close>

datatype 'a backing = Absent | Unreadable | Blank | Malformed | Misshapen | Stored "'a list"

record 'a store =
  accounts :: "account backing"
  universities :: "'a institution_scheme backing"
  applications :: "application backing"

text \<open>
  The value \<^verbatim>\<open>readDB\<close> returns: an object whose \<^verbatim>\<open>users\<close> is an array, or a parsed
  value without such an array, on which \<^verbatim>\<open>db.users.some\<close> and \<^verbatim>\<open>db.users.find\<close>
  throw a TypeError.
\<close>

datatype db = Users "account list" | NoUsers

definition readDB :: "account backing \<Rightarrow> db" where
  "readDB f =
     (case f of
        Absent \<Rightarrow> Users []
      | Unreadable \<Rightarrow> Users []
      | Blank \<Rightarrow> Users []
      | Malformed \<Rightarrow> Users []
      | Misshapen \<Rightarrow> NoUsers
      | Stored us \<Rightarrow> Users us)"

definition writeDB :: "account list \<Rightarrow> 'a store \<Rightarrow> 'a store" where
  "writeDB us s = s\<lparr>accounts := Stored us\<rparr>"

definition readUniversities :: "'u backing \<Rightarrow> 'u list" where
  "readUniversities f =
     (case f of
        Absent \<Rightarrow> []
      | Unreadable \<Rightarrow> []
      | Blank \<Rightarrow> []
      | Malformed \<Rightarrow> []
      | Misshapen \<Rightarrow> []
      | Stored items \<Rightarrow> items)"

definition writeUniversities :: "'a institution_scheme list \<Rightarrow> 'a store \<Rightarrow> 'a store" where
  "writeUniversities items s = s\<lparr>universities := Stored items\<rparr>"

definition readApplications :: "application backing \<Rightarrow> application list" where
  "readApplications f =
     (case f of
        Absent \<Rightarrow> []
      | Unreadable \<Rightarrow> []
      | Blank \<Rightarrow> []
      | Malformed \<Rightarrow> []
      | Misshapen \<Rightarrow> []
      | Stored apps \<Rightarrow> apps)"

definition writeApplications :: "application list \<Rightarrow> 'a store \<Rightarrow> 'a store" where
  "writeApplications apps s = s\<lparr>applications := Stored apps\<rparr>"


section \<open>Responses\<close>

text \<open>
  The status of a response, under the names of the specification: 200, 201, 400, 401,
  403, 404 and 409 in the source.
\<close>

datatype status = OK | Created | InvalidInput | Unauthorized | Forbidden | NotFound | Conflict

text \<open>
  The JSON bodies the handlers send. \<open>Profile\<close> is the object literal
  \<^verbatim>\<open>{ id: user.id, name: user.name, email: user.email }\<close>, kept as its list of
  properties.
\<close>

datatype 'a body =
    Error string
  | Profile "(string \<times> json) list"
  | Items "'a institution_scheme list" nat
  | Institution "'a institution_scheme"
  | Message string
  | Submitted string int
  | Count nat
  | Applications "application list"
  | Accounts db

text \<open>
  A handler sends a response, or throws: a TypeError of the language, or the error with
  which a call into bcrypt fails.
\<close>

datatype 'a result = Reply status "'a body" | TypeError | BcryptError

definition profile :: "account \<Rightarrow> 'a body" where
  "profile user =
     Profile [(''id'', JStr (acc_id user)), (''name'', acc_name user),
              (''email'', acc_email user)]"


section \<open>Account registry\<close>

text \<open>
  \<^verbatim>\<open>POST /api/signup\<close> runs in two steps, with \<^verbatim>\<open>await bcrypt.hash(password, 10)\<close> between
  them: other handlers may run while the hash is computed. The first step checks the
  request against the accounts it reads; what it keeps across the \<^verbatim>\<open>await\<close> is the
  object it read and the three values of the request.
\<close>

record pending =
  pd_users :: "account list"
  pd_name :: json
  pd_email :: json
  pd_password :: json

definition signup_begin ::
  "builtins \<Rightarrow> field \<Rightarrow> field \<Rightarrow> field \<Rightarrow> 'a store \<Rightarrow> 'a result + pending"
where
  "signup_begin js name email password s =
     (if falsy name \<or> falsy email \<or> falsy password
      then Inl (Reply InvalidInput (Error ''Missing fields''))
      else
        (case readDB (accounts s) of
           NoUsers \<Rightarrow> Inl TypeError
         | Users us \<Rightarrow>
             (case some_thr (\<lambda>u. same_lower js (acc_email u) (the email)) us of
                None \<Rightarrow> Inl TypeError
              | Some taken \<Rightarrow>
                  if taken then Inl (Reply Conflict (Error ''Email already registered''))
                  else Inr \<lparr>pd_users = us, pd_name = the name, pd_email = the email,
                            pd_password = the password\<rparr>)))"

text \<open>
  The second step. \<open>hash\<close> is \<^verbatim>\<open>bcrypt.hash(_, 10)\<close> with the salt it drew, \<open>None\<close> when it
  rejects its argument; \<open>now\<close> is the reading of \<^verbatim>\<open>Date.now()\<close>. The handler pushes the
  user onto the array it read in the first step and writes that array.
\<close>

definition signup_finish ::
  "(json \<Rightarrow> string option) \<Rightarrow> nat \<Rightarrow> pending \<Rightarrow> 'a store \<Rightarrow> 'a result \<times> 'a store"
where
  "signup_finish hash now k s =
     (case hash (pd_password k) of
        None \<Rightarrow> (BcryptError, s)
      | Some passwordHash \<Rightarrow>
          (let user = \<lparr>acc_id = toString now, acc_name = pd_name k, acc_email = pd_email k,
                       acc_passwordHash = passwordHash\<rparr>
           in (Reply Created (profile user), writeDB (pd_users k @ [user]) s)))"

text \<open>A signup that no other handler interrupts.\<close>

definition signup ::
  "builtins \<Rightarrow> (json \<Rightarrow> string option) \<Rightarrow> nat \<Rightarrow> field \<Rightarrow> field \<Rightarrow> field \<Rightarrow> 'a store
     \<Rightarrow> 'a result \<times> 'a store"
where
  "signup js hash now name email password s =
     (case signup_begin js name email password s of
        Inl r \<Rightarrow> (r, s)
      | Inr k \<Rightarrow> signup_finish hash now k s)"

text \<open>
  \<^verbatim>\<open>POST /api/login\<close>. \<open>compare\<close> is \<^verbatim>\<open>bcrypt.compare\<close>, \<open>None\<close> when it rejects its
  arguments. The handler writes nothing and answers from the accounts it read before the
  \<^verbatim>\<open>await\<close>, so it is taken in one step.
\<close>

definition login ::
  "builtins \<Rightarrow> (json \<Rightarrow> string \<Rightarrow> bool option) \<Rightarrow> field \<Rightarrow> field \<Rightarrow> 'a store
     \<Rightarrow> 'a result \<times> 'a store"
where
  "login js compare email password s =
     (if falsy email \<or> falsy password
      then (Reply InvalidInput (Error ''Missing fields''), s)
      else
        (case readDB (accounts s) of
           NoUsers \<Rightarrow> (TypeError, s)
         | Users us \<Rightarrow>
             (case find_thr (\<lambda>u. same_lower js (acc_email u) (the email)) us of
                None \<Rightarrow> (TypeError, s)
              | Some None \<Rightarrow> (Reply Unauthorized (Error ''Invalid email or password''), s)
              | Some (Some user) \<Rightarrow>
                  (case compare (the password) (acc_passwordHash user) of
                     None \<Rightarrow> (BcryptError, s)
                   | Some ok \<Rightarrow>
                       if \<not> ok
                       then (Reply Unauthorized (Error ''Invalid email or password''), s)
                       else (Reply OK (profile user), s)))))"

text \<open>\<^verbatim>\<open>GET /api/accounts\<close>: the value of \<^verbatim>\<open>readDB\<close> as it is.\<close>

definition listAccounts :: "'a store \<Rightarrow> 'a result \<times> 'a store" where
  "listAccounts s = (Reply OK (Accounts (readDB (accounts s))), s)"


section \<open>Institution catalog\<close>

text \<open>
  \<^verbatim>\<open>GET /api/universities\<close> with the query parameters \<open>q\<close>, \<open>type\<close>, \<open>college\<close>. Each
  filter step answers \<open>None\<close> when its callback throws.
\<close>

definition name_filter ::
  "builtins \<Rightarrow> field \<Rightarrow> 'a institution_scheme list \<Rightarrow> 'a institution_scheme list option"
where
  "name_filter js q data =
     (if \<not> falsy q
      then (let s = toLowerCase js (js_String js (the q))
            in filter_thr
                 (\<lambda>u. case uni_name u of
                         None \<Rightarrow> None
                       | Some n \<Rightarrow>
                           (case lower_of js n of
                              None \<Rightarrow> None
                            | Some l \<Rightarrow> Some (str_includes l s)))
                 data)
      else Some data)"

definition type_filter ::
  "field \<Rightarrow> 'a institution_scheme list \<Rightarrow> 'a institution_scheme list"
where
  "type_filter ty data =
     (if \<not> falsy ty then filter (\<lambda>u. strict_eq_opt (uni_type u) ty) data else data)"

text \<open>
  \<^verbatim>\<open>c.name\<close> for an element \<open>c\<close> of the colleges: reading a property of \<^verbatim>\<open>null\<close> throws,
  an object answers with the property, every other value with \<^verbatim>\<open>undefined\<close>.
\<close>

definition college_name :: "json \<Rightarrow> field option" where
  "college_name c =
     (case c of
        JNull \<Rightarrow> None
      | JObj kvs \<Rightarrow> Some (map_of kvs ''name'')
      | _ \<Rightarrow> Some None)"

text \<open>
  \<^verbatim>\<open>(u.colleges || []).some(c => c.name === college)\<close>: a falsy \<^verbatim>\<open>colleges\<close> is the
  empty array, and a truthy one that is no array has no \<^verbatim>\<open>some\<close> to call.
\<close>

definition has_college :: "field \<Rightarrow> 'a institution_scheme \<Rightarrow> bool option" where
  "has_college college u =
     (if falsy (uni_colleges u) then Some False
      else
        (case the (uni_colleges u) of
           JArr cs \<Rightarrow>
             some_thr
               (\<lambda>c. case college_name c of
                       None \<Rightarrow> None
                     | Some n \<Rightarrow> Some (strict_eq_opt n college))
               cs
         | _ \<Rightarrow> None))"

definition college_filter ::
  "field \<Rightarrow> 'a institution_scheme list \<Rightarrow> 'a institution_scheme list option"
where
  "college_filter college data =
     (if \<not> falsy college then filter_thr (has_college college) data else Some data)"

definition query ::
  "builtins \<Rightarrow> field \<Rightarrow> field \<Rightarrow> field \<Rightarrow> 'a store \<Rightarrow> 'a result \<times> 'a store"
where
  "query js q ty college s =
     (case name_filter js q (readUniversities (universities s)) of
        None \<Rightarrow> (TypeError, s)
      | Some named \<Rightarrow>
          (case college_filter college (type_filter ty named) of
             None \<Rightarrow> (TypeError, s)
           | Some data \<Rightarrow> (Reply OK (Items data (length data)), s)))"

text \<open>\<^verbatim>\<open>GET /api/universities/:id\<close>.\<close>

definition getById :: "int \<Rightarrow> 'a store \<Rightarrow> 'a result \<times> 'a store" where
  "getById i s =
     (case find (\<lambda>u. uni_id u = i) (readUniversities (universities s)) of
        None \<Rightarrow> (Reply NotFound (Error ''Not found''), s)
      | Some uni \<Rightarrow> (Reply OK (Institution uni), s))"

text \<open>\<^verbatim>\<open>PUT /api/universities/:id\<close>.\<close>

definition replace :: "int \<Rightarrow> 'a institution_scheme \<Rightarrow> 'a store \<Rightarrow> 'a result \<times> 'a store" where
  "replace i body s =
     (let data = readUniversities (universities s) in
      case findIndex (\<lambda>u. uni_id u = i) data of
        None \<Rightarrow> (Reply NotFound (Error ''University not found''), s)
      | Some index \<Rightarrow>
          (let updatedUni = body\<lparr>uni_id := i\<rparr>
           in (Reply OK (Institution updatedUni),
               writeUniversities (data[index := updatedUni]) s)))"

text \<open>\<^verbatim>\<open>POST /api/universities\<close>.\<close>

definition create :: "nat \<Rightarrow> 'a institution_scheme \<Rightarrow> 'a store \<Rightarrow> 'a result \<times> 'a store" where
  "create now body s =
     (let newUni = body\<lparr>uni_id := int now\<rparr>;
          data = readUniversities (universities s)
      in (Reply Created (Institution newUni), writeUniversities (data @ [newUni]) s))"

text \<open>\<^verbatim>\<open>DELETE /api/universities/:id\<close>.\<close>

definition deleteUniversity :: "int \<Rightarrow> 'a store \<Rightarrow> 'a result \<times> 'a store" where
  "deleteUniversity i s =
     (let data = readUniversities (universities s);
          filtered = filter (\<lambda>u. uni_id u \<noteq> i) data
      in if length data = length filtered
         then (Reply NotFound (Error ''Not found''), s)
         else (Reply OK (Message ''Deleted successfully''), writeUniversities filtered s))"


section \<open>Application ledger\<close>

text \<open>
  The properties \<^verbatim>\<open>POST /api/apply\<close> destructures out of the request body, which the
  request is taken to carry.
\<close>

record apply_body =
  rq_fullName :: field
  rq_birthDate :: field
  rq_nationalId :: field
  rq_address :: field
  rq_phoneNumber :: field
  rq_total :: field
  rq_paymentMethod :: field
  rq_college :: field
  rq_email :: field

text \<open>
  \<^verbatim>\<open>POST /api/apply\<close>. \<open>now\<close> is \<^verbatim>\<open>Date.now()\<close>, \<open>stamp\<close> is
  \<^verbatim>\<open>new Date().toISOString()\<close>.
\<close>

definition submit :: "nat \<Rightarrow> string \<Rightarrow> apply_body \<Rightarrow> 'a store \<Rightarrow> 'a result \<times> 'a store" where
  "submit now stamp b s =
     (if falsy (rq_fullName b) \<or> falsy (rq_birthDate b) \<or> falsy (rq_nationalId b)
         \<or> falsy (rq_address b) \<or> falsy (rq_phoneNumber b) \<or> falsy (rq_college b)
      then (Reply InvalidInput (Error ''Missing required fields''), s)
      else
        (case readDB (accounts s) of
           NoUsers \<Rightarrow> (TypeError, s)
         | Users us \<Rightarrow>
             (case find (\<lambda>u. strict_eq_opt (Some (acc_email u)) (rq_email b)) us of
                None \<Rightarrow> (Reply Forbidden (Error ''Unauthorized: User not found''), s)
              | Some user \<Rightarrow>
                  (let newApplication =
                         \<lparr>app_id = int now, app_userId = acc_id user,
                          app_fullName = rq_fullName b, app_birthDate = rq_birthDate b,
                          app_nationalId = rq_nationalId b, app_address = rq_address b,
                          app_phoneNumber = rq_phoneNumber b, app_total = rq_total b,
                          app_paymentMethod = rq_paymentMethod b,
                          app_applicantEmail = rq_email b, app_college = rq_college b,
                          app_status = ''Pending'', app_submittedAt = stamp\<rparr>;
                       apps = readApplications (applications s)
                   in (Reply Created
                         (Submitted ''Application submitted successfully'' (app_id newApplication)),
                       writeApplications (apps @ [newApplication]) s)))))"

text \<open>\<^verbatim>\<open>GET /api/applications/count\<close>.\<close>

definition countByEmail :: "field \<Rightarrow> 'a store \<Rightarrow> 'a result \<times> 'a store" where
  "countByEmail email s =
     (if falsy email then (Reply InvalidInput (Error ''Email is required''), s)
      else
        (let apps = readApplications (applications s);
             count = length (filter (\<lambda>app. strict_eq_opt (app_applicantEmail app) email) apps)
         in (Reply OK (Count count), s)))"

text \<open>\<^verbatim>\<open>GET /api/applications\<close>.\<close>

definition listApplications :: "'a store \<Rightarrow> 'a result \<times> 'a store" where
  "listApplications s = (Reply OK (Applications (readApplications (applications s))), s)"

text \<open>\<^verbatim>\<open>DELETE /api/applications/:id\<close>.\<close>

definition deleteApplication :: "int \<Rightarrow> 'a store \<Rightarrow> 'a result \<times> 'a store" where
  "deleteApplication i s =
     (let apps = readApplications (applications s);
          filtered = filter (\<lambda>app. app_id app \<noteq> i) apps
      in if length apps = length filtered
         then (Reply NotFound (Error ''Not found''), s)
         else (Reply OK (Message ''Deleted successfully''), writeApplications filtered s))"


section \<open>The server as a transition system\<close>

text \<open>What a handler draws from its surroundings while it serves one request.\<close>

record env =
  bcrypt_hash :: "json \<Rightarrow> string option"
  bcrypt_compare :: "json \<Rightarrow> string \<Rightarrow> bool option"
  Date_now :: nat
  toISOString :: string

datatype 'a request =
    Signup field field field
  | Login field field
  | ListAccounts
  | Query field field field
  | GetById int
  | Replace int "'a institution_scheme"
  | Create "'a institution_scheme"
  | DeleteUniversity int
  | Apply apply_body
  | CountByEmail field
  | ListApplications
  | DeleteApplication int

text \<open>A request served from its first statement to its last, nothing in between.\<close>

fun handle :: "builtins \<Rightarrow> env \<Rightarrow> 'a request \<Rightarrow> 'a store \<Rightarrow> 'a result \<times> 'a store" where
  "handle js e (Signup name email password) s =
     signup js (bcrypt_hash e) (Date_now e) name email password s"
| "handle js e (Login email password) s = login js (bcrypt_compare e) email password s"
| "handle js e ListAccounts s = listAccounts s"
| "handle js e (Query q ty college) s = query js q ty college s"
| "handle js e (GetById i) s = getById i s"
| "handle js e (Replace i body) s = replace i body s"
| "handle js e (Create body) s = create (Date_now e) body s"
| "handle js e (DeleteUniversity i) s = deleteUniversity i s"
| "handle js e (Apply b) s = submit (Date_now e) (toISOString e) b s"
| "handle js e (CountByEmail email) s = countByEmail email s"
| "handle js e ListApplications s = listApplications s"
| "handle js e (DeleteApplication i) s = deleteApplication i s"

text \<open>
  At start-up the server writes an empty \<^verbatim>\<open>applications.json\<close> when there is none; the
  other two files are left as they are found. A fresh deployment has no file at all.
\<close>

definition startup :: "'a store \<Rightarrow> 'a store" where
  "startup s = (if applications s = Absent then writeApplications [] s else s)"

definition fresh :: "'a store" where
  "fresh = startup \<lparr>accounts = Absent, universities = Absent, applications = Absent\<rparr>"

text \<open>
  The configurations the server reaches: the store, and the signups waiting at their
  \<^verbatim>\<open>await\<close>. A request is served in one piece, or a signup gets as far as its \<^verbatim>\<open>await\<close>
  and is set aside, or one of the signups set aside runs its second step. Every request
  carries values of any JSON type, and signups overlap in every possible order.
\<close>

inductive reachable :: "builtins \<Rightarrow> 'a store \<times> pending list \<Rightarrow> bool" for js where
  start: "reachable js (fresh, [])"
| serve: "reachable js (s, ks) \<Longrightarrow> reachable js (snd (handle js e r s), ks)"
| suspend:
    "reachable js (s, ks) \<Longrightarrow> signup_begin js name email password s = Inr k
       \<Longrightarrow> reachable js (s, k # ks)"
| resume:
    "reachable js (s, ks) \<Longrightarrow> k \<in> set ks
       \<Longrightarrow> reachable js (snd (signup_finish hash now k s), remove1 k ks)"


section \<open>Vocabulary of the properties\<close>

text \<open>
  The error statuses of the specification, as opposed to the two successes.
\<close>

definition is_error :: "status \<Rightarrow> bool" where
  "is_error st =
     (st = InvalidInput \<or> st = Conflict \<or> st = NotFound \<or> st = Forbidden \<or> st = Unauthorized)"

text \<open>
  The status a handler answered with, if it answered.
\<close>

definition status_of :: "'a result \<Rightarrow> status option" where
  "status_of r = (case r of Reply st b \<Rightarrow> Some st | TypeError \<Rightarrow> None | BcryptError \<Rightarrow> None)"

text \<open>
  Sample surroundings. \<open>js0\<close> folds the letters A to Z and keeps every other character,
  which is what \<^verbatim>\<open>String.prototype.toLowerCase\<close> does on the ASCII strings of the samples.
  \<open>hash0\<close> and \<open>compare0\<close> stand in for bcrypt on string passwords and
  reject every other value; the clock of \<open>env0\<close> reads 5.
\<close>

definition lower_char :: "char \<Rightarrow> char" where
  "lower_char c =
     (let n = (of_char c :: nat) in if 65 \<le> n \<and> n \<le> 90 then char_of (n + 32) else c)"

definition js0 :: builtins where
  "js0 = \<lparr>toLowerCase = map lower_char, String_conv = (\<lambda>v. ''[object Object]'')\<rparr>"

definition hash0 :: "json \<Rightarrow> string option" where
  "hash0 p = (case p of JStr w \<Rightarrow> Some (''$2a$'' @ w) | _ \<Rightarrow> None)"

definition compare0 :: "json \<Rightarrow> string \<Rightarrow> bool option" where
  "compare0 p h = (case p of JStr w \<Rightarrow> Some (h = ''$2a$'' @ w) | _ \<Rightarrow> None)"

definition env0 :: env where
  "env0 = \<lparr>bcrypt_hash = hash0, bcrypt_compare = compare0,
           Date_now = 5, toISOString = ''2024-01-01T00:00:00.000Z''\<rparr>"

text \<open>
  A store whose \<^verbatim>\<open>accounts.json\<close> holds valid JSON without a \<^verbatim>\<open>users\<close> array,
  such as \<^verbatim>\<open>{}\<close>.
\<close>

definition broken_accounts :: "unit store" where
  "broken_accounts = \<lparr>accounts = Misshapen, universities = Absent, applications = Stored []\<rparr>"

text \<open>
  Sample accounts: \<open>ana\<close> and \<open>bob\<close> as signup stores them at the clock readings 5
  and 6, and \<open>numeric\<close>, the account stored for the request
  \<^verbatim>\<open>{"name": "Num", "email": 123, "password": "pw123"}\<close>.
\<close>

definition ana :: account where
  "ana = \<lparr>acc_id = ''5'', acc_name = JStr ''Ana'', acc_email = JStr ''Ana@X.com'',
          acc_passwordHash = ''$2a$pw123''\<rparr>"

definition bob :: account where
  "bob = \<lparr>acc_id = ''6'', acc_name = JStr ''Bob'', acc_email = JStr ''bob@x.com'',
          acc_passwordHash = ''$2a$pw999''\<rparr>"

definition numeric :: account where
  "numeric = \<lparr>acc_id = ''5'', acc_name = JStr ''Num'', acc_email = JNum 123,
              acc_passwordHash = ''$2a$pw123''\<rparr>"

definition ana_store :: "unit store" where
  "ana_store = \<lparr>accounts = Stored [ana], universities = Absent, applications = Stored []\<rparr>"

text \<open>
  The stores a fresh deployment is in after one signup, and the two signups of Ana and
  Bob as they stand at their \<^verbatim>\<open>await\<close> when both began on the fresh deployment.
\<close>

definition after_ana :: "unit store" where
  "after_ana =
     snd (handle js0 env0
            (Signup (Some (JStr ''Ana'')) (Some (JStr ''Ana@X.com'')) (Some (JStr ''pw123'')))
            fresh)"

definition after_numeric :: "unit store" where
  "after_numeric =
     snd (handle js0 env0
            (Signup (Some (JStr ''Num'')) (Some (JNum 123)) (Some (JStr ''pw123''))) fresh)"

definition ana_pending :: pending where
  "ana_pending = \<lparr>pd_users = [], pd_name = JStr ''Ana'', pd_email = JStr ''Ana@X.com'',
                  pd_password = JStr ''pw123''\<rparr>"

definition bob_pending :: pending where
  "bob_pending = \<lparr>pd_users = [], pd_name = JStr ''Bob'', pd_email = JStr ''bob@x.com'',
                  pd_password = JStr ''pw999''\<rparr>"

text \<open>
  A complete application by Ana, and the same with \<^verbatim>\<open>fullName: ""\<close>: the property
  is there, and empty.
\<close>

definition full_body :: apply_body where
  "full_body =
     \<lparr>rq_fullName = Some (JStr ''Ana Lee''), rq_birthDate = Some (JStr ''2000-01-01''),
      rq_nationalId = Some (JStr ''123''), rq_address = Some (JStr ''1 Main St''),
      rq_phoneNumber = Some (JStr ''555''), rq_total = None, rq_paymentMethod = None,
      rq_college = Some (JStr ''Engineering''), rq_email = Some (JStr ''Ana@X.com'')\<rparr>"

definition blank_name_body :: apply_body where
  "blank_name_body = full_body\<lparr>rq_fullName := Some (JStr '''')\<rparr>"

text \<open>
  Three institutions: \<open>beta\<close> comes with an id of the client's choosing, and
  \<open>nameless\<close> is the body \<^verbatim>\<open>{}\<close>.
\<close>

definition alpha :: institution where
  "alpha = \<lparr>uni_id = 1, uni_name = Some (JStr ''Alpha U''), uni_type = Some (JStr ''Public''),
            uni_colleges = Some (JArr [JObj [(''name'', JStr ''Engineering'')]])\<rparr>"

definition beta :: institution where
  "beta = \<lparr>uni_id = 99, uni_name = Some (JStr ''Beta U''), uni_type = Some (JStr ''Private''),
           uni_colleges = None\<rparr>"

definition nameless :: institution where
  "nameless = \<lparr>uni_id = 0, uni_name = None, uni_type = None, uni_colleges = None\<rparr>"

definition alpha_store :: "unit store" where
  "alpha_store = \<lparr>accounts = Absent, universities = Stored [alpha], applications = Stored []\<rparr>"

text \<open>
  A required field that the presence check refuses, its values spelled out: absent,
  \<^verbatim>\<open>null\<close>, \<^verbatim>\<open>false\<close>, zero or the empty string.
\<close>

definition unset :: "field \<Rightarrow> bool" where
  "unset x =
     (x = None \<or> x = Some JNull \<or> x = Some (JBool False) \<or> x = Some (JNum 0)
      \<or> x = Some (JStr ''''))"

text \<open>
  An account whose email is a string, and the email with its case folded, any other
  value being kept as it is: two accounts have emails that are equal ignoring case when
  their folded emails are equal.
\<close>

definition string_email :: "account \<Rightarrow> bool" where
  "string_email u = (case acc_email u of JStr x \<Rightarrow> True | _ \<Rightarrow> False)"

definition folded :: "builtins \<Rightarrow> json \<Rightarrow> json" where
  "folded js v = (case v of JStr x \<Rightarrow> JStr (toLowerCase js x) | _ \<Rightarrow> v)"

definition emails_unique :: "builtins \<Rightarrow> account list \<Rightarrow> bool" where
  "emails_unique js us = distinct (map (\<lambda>u. folded js (acc_email u)) us)"

text \<open>
  What holds of a store and of a signup waiting at its \<^verbatim>\<open>await\<close> in every
  configuration: the accounts load as a collection without two emails equal ignoring
  case, and so does the collection the waiting signup is about to write.
\<close>

definition stored_ok :: "builtins \<Rightarrow> 'a store \<Rightarrow> bool" where
  "stored_ok js s = (\<exists>us. readDB (accounts s) = Users us \<and> emails_unique js us)"

definition pending_ok :: "builtins \<Rightarrow> pending \<Rightarrow> bool" where
  "pending_ok js k =
     distinct (map (\<lambda>u. folded js (acc_email u)) (pd_users k) @ [folded js (pd_email k)])"

text \<open>
  An institution the filters can read: its name is a string, and its colleges are
  falsy or an array without \<^verbatim>\<open>null\<close> among its elements.
\<close>

definition string_name :: "'a institution_scheme \<Rightarrow> bool" where
  "string_name u = (case uni_name u of Some (JStr n) \<Rightarrow> True | _ \<Rightarrow> False)"

definition colleges_list :: "'a institution_scheme \<Rightarrow> json list" where
  "colleges_list u = (case uni_colleges u of Some (JArr cs) \<Rightarrow> cs | _ \<Rightarrow> [])"

definition colleges_readable :: "'a institution_scheme \<Rightarrow> bool" where
  "colleges_readable u =
     (falsy (uni_colleges u)
      \<or> (case uni_colleges u of Some (JArr cs) \<Rightarrow> JNull \<notin> set cs | _ \<Rightarrow> False))"

text \<open>
  The filters in the words of the specification. The name filter is a case-insensitive
  substring match on the institution's name, the type filter an exact match, and the
  college filter holds when some element of the institution's colleges has exactly that
  name. A filter is supplied when it passes the test \<^verbatim>\<open>if (q)\<close> of the source; the
  filters supplied are taken together.
\<close>

definition name_matches :: "builtins \<Rightarrow> json \<Rightarrow> 'a institution_scheme \<Rightarrow> bool" where
  "name_matches js q u =
     (case uni_name u of
        Some (JStr n) \<Rightarrow> sublist (toLowerCase js (js_String js q)) (toLowerCase js n)
      | _ \<Rightarrow> False)"

definition type_matches :: "json \<Rightarrow> 'a institution_scheme \<Rightarrow> bool" where
  "type_matches ty u = strict_eq_opt (uni_type u) (Some ty)"

definition named :: "json \<Rightarrow> json \<Rightarrow> bool" where
  "named college c =
     (case c of JObj kvs \<Rightarrow> strict_eq_opt (map_of kvs ''name'') (Some college) | _ \<Rightarrow> False)"

definition college_matches :: "json \<Rightarrow> 'a institution_scheme \<Rightarrow> bool" where
  "college_matches college u = (\<exists>c \<in> set (colleges_list u). named college c)"

definition satisfies_filters ::
  "builtins \<Rightarrow> field \<Rightarrow> field \<Rightarrow> field \<Rightarrow> 'a institution_scheme \<Rightarrow> bool"
where
  "satisfies_filters js q ty college u =
     ((\<not> falsy q \<longrightarrow> name_matches js (the q) u)
      \<and> (\<not> falsy ty \<longrightarrow> type_matches (the ty) u)
      \<and> (\<not> falsy college \<longrightarrow> college_matches (the college) u))"











section \<open>Basic facts\<close>

lemma falsy_simps [simp]:
  "falsy None"
  "falsy (Some JNull)"
  "falsy (Some (JBool b)) = (\<not> b)"
  "falsy (Some (JNum n)) = (n = 0)"
  "falsy (Some (JStr s)) = (s = [])"
  "\<not> falsy (Some (JArr vs))"
  "\<not> falsy (Some (JObj kvs))"
  by (simp_all add: falsy_def)

lemma strict_eq_opt_simps [simp]:
  "strict_eq_opt None None"
  "\<not> strict_eq_opt (Some x) None"
  "\<not> strict_eq_opt None (Some y)"
  "strict_eq_opt (Some x) (Some y) = strict_eq x y"
  by (simp_all add: strict_eq_opt_def)

lemma fresh_simps:
  "accounts (fresh :: 'a store) = Absent"
  "universities (fresh :: 'a store) = Absent"
  "applications (fresh :: 'a store) = Stored []"
  by (simp_all add: fresh_def startup_def writeApplications_def)

lemma fresh_eq:
  "(fresh :: 'a store)
     = \<lparr>accounts = Absent, universities = Absent, applications = Stored []\<rparr>"
  by (simp add: fresh_def startup_def writeApplications_def)

lemma str_includes_sublist: "str_includes s t = sublist t s"
  by (induction s) (auto simp: sublist_Cons_right)

text \<open>Evaluations on the sample data.\<close>

lemma lower_samples:
  "toLowerCase js0 ''Ana@X.com'' = ''ana@x.com''"
  "toLowerCase js0 ''ana@x.com'' = ''ana@x.com''"
  "toLowerCase js0 ''ANA@X.COM'' = ''ana@x.com''"
  "toLowerCase js0 ''bob@x.com'' = ''bob@x.com''"
  "toLowerCase js0 ''Alpha U'' = ''alpha u''"
  "toLowerCase js0 ''PHA'' = ''pha''"
  "toLowerCase js0 ''a'' = ''a''"
  by code_simp+

lemma toString_5: "toString 5 = ''5''" "toString 6 = ''6''" "toString 7 = ''7''"
  by code_simp+

text \<open>A callback that never throws makes the three array methods the plain ones.\<close>

lemma some_thr_total:
  "\<forall>x \<in> set xs. f x = Some (P x) \<Longrightarrow> some_thr f xs = Some (\<exists>x \<in> set xs. P x)"
  by (induction xs) auto

lemma find_thr_total:
  "\<forall>x \<in> set xs. f x = Some (P x) \<Longrightarrow> find_thr f xs = Some (find P xs)"
  by (induction xs) auto

lemma filter_thr_total:
  "\<forall>x \<in> set xs. f x = Some (P x) \<Longrightarrow> filter_thr f xs = Some (filter P xs)"
  by (induction xs) auto

lemma some_thr_False: "some_thr f xs = Some False \<Longrightarrow> \<forall>x \<in> set xs. f x = Some False"
  by (induction xs) (auto split: option.splits if_splits)

lemma falsy_unset: "falsy x = unset x"
  by (auto simp: falsy_def unset_def split: option.splits json.splits)


lemma same_lower_strings:
  "string_email u \<Longrightarrow>
     same_lower js (acc_email u) (JStr e)
       = Some (lower_of js (acc_email u) = Some (toLowerCase js e))"
  by (auto simp: string_email_def same_lower_def lower_of_def split: json.splits)

lemma find_thr_strings:
  assumes "\<forall>u \<in> set us. string_email u"
  shows "find_thr (\<lambda>u. same_lower js (acc_email u) (JStr e)) us
           = Some (find (\<lambda>u. lower_of js (acc_email u) = Some (toLowerCase js e)) us)"
  using assms by (intro find_thr_total) (simp add: same_lower_strings)

lemma some_thr_strings:
  assumes "\<forall>u \<in> set us. string_email u"
  shows "some_thr (\<lambda>u. same_lower js (acc_email u) (JStr e)) us
           = Some (\<exists>u \<in> set us. lower_of js (acc_email u) = Some (toLowerCase js e))"
  using assms by (intro some_thr_total) (simp add: same_lower_strings)


section \<open>Account registry: unique emails\<close>

lemma same_lower_False_folded:
  "same_lower js a b = Some False \<Longrightarrow> folded js a \<noteq> folded js b"
  by (auto simp: same_lower_def lower_of_def folded_def split: json.splits)

lemma signup_begin_pending:
  assumes "signup_begin js n e p s = Inr k"
  shows "\<exists>us. readDB (accounts s) = Users us \<and> pd_users k = us \<and> pd_name k = the n
            \<and> pd_email k = the e \<and> pd_password k = the p
            \<and> (\<forall>u \<in> set us. same_lower js (acc_email u) (the e) = Some False)"
  using assms
  by (auto simp: signup_begin_def dest: some_thr_False split: if_splits db.splits option.splits)

lemma signup_begin_pending_ok:
  assumes "signup_begin js n e p s = Inr k"
    and "readDB (accounts s) = Users us" and "emails_unique js us"
  shows "pending_ok js k"
proof -
  from signup_begin_pending [OF assms(1)] assms(2)
  have k: "pd_users k = us" "pd_email k = the e"
      "\<forall>u \<in> set us. same_lower js (acc_email u) (the e) = Some False"
    by auto
  from k(3) have "\<forall>u \<in> set us. folded js (acc_email u) \<noteq> folded js (the e)"
    by (auto dest: same_lower_False_folded)
  with assms(3) k(1,2) show ?thesis
    by (auto simp: pending_ok_def emails_unique_def)
qed

lemma signup_finish_accounts:
  "accounts (snd (signup_finish hash now k s)) = accounts s
   \<or> (\<exists>u. acc_email u = pd_email k
          \<and> accounts (snd (signup_finish hash now k s)) = Stored (pd_users k @ [u]))"
  by (auto simp: signup_finish_def writeDB_def Let_def split: option.splits)

lemma signup_finish_ok:
  assumes "pending_ok js k" and "stored_ok js s"
  shows "stored_ok js (snd (signup_finish hash now k s))"
proof -
  from signup_finish_accounts [of hash now k s] show ?thesis
  proof
    assume "accounts (snd (signup_finish hash now k s)) = accounts s"
    with assms(2) show ?thesis by (simp add: stored_ok_def)
  next
    assume "\<exists>u. acc_email u = pd_email k
          \<and> accounts (snd (signup_finish hash now k s)) = Stored (pd_users k @ [u])"
    then obtain u where u: "acc_email u = pd_email k"
        "accounts (snd (signup_finish hash now k s)) = Stored (pd_users k @ [u])"
      by blast
    with assms(1) show ?thesis
      by (simp add: stored_ok_def pending_ok_def emails_unique_def readDB_def)
  qed
qed

lemma signup_ok:
  assumes "stored_ok js s"
  shows "stored_ok js (snd (signup js hash now n e p s))"
proof (cases "signup_begin js n e p s")
  case (Inl r)
  with assms show ?thesis by (simp add: signup_def)
next
  case (Inr k)
  from assms obtain us where "readDB (accounts s) = Users us" "emails_unique js us"
    by (auto simp: stored_ok_def)
  with Inr have "pending_ok js k"
    by (rule signup_begin_pending_ok)
  with assms Inr show ?thesis
    by (simp add: signup_def signup_finish_ok)
qed

lemma others_keep_accounts:
  "accounts (snd (login js cmp em pw s)) = accounts s"
  "accounts (snd (listAccounts s)) = accounts s"
  "accounts (snd (query js q ty c s)) = accounts s"
  "accounts (snd (getById i s)) = accounts s"
  "accounts (snd (replace i body s)) = accounts s"
  "accounts (snd (create now body s)) = accounts s"
  "accounts (snd (deleteUniversity i s)) = accounts s"
  "accounts (snd (submit now stamp b s)) = accounts s"
  "accounts (snd (countByEmail em s)) = accounts s"
  "accounts (snd (listApplications s)) = accounts s"
  "accounts (snd (deleteApplication i s)) = accounts s"
  by (simp_all add: login_def listAccounts_def query_def getById_def replace_def create_def
      deleteUniversity_def submit_def countByEmail_def listApplications_def
      deleteApplication_def writeUniversities_def writeApplications_def Let_def
      split: db.splits option.splits)

lemma handle_ok:
  assumes "stored_ok js s"
  shows "stored_ok js (snd (handle js e r s))"
proof (cases r)
  case (Signup n em pw)
  with assms show ?thesis by (simp add: signup_ok)
qed (use assms in \<open>simp_all add: stored_ok_def others_keep_accounts\<close>)

lemma reachable_ok:
  "reachable js c \<Longrightarrow> stored_ok js (fst c) \<and> (\<forall>k \<in> set (snd c). pending_ok js k)"
proof (induction rule: reachable.induct)
  case start
  show ?case by (simp add: stored_ok_def emails_unique_def fresh_simps readDB_def)
next
  case (serve s ks e r)
  then show ?case by (simp add: handle_ok)
next
  case (suspend s ks name email password k)
  from suspend.IH obtain us where "readDB (accounts s) = Users us" "emails_unique js us"
    by (auto simp: stored_ok_def)
  with suspend.hyps(2) have "pending_ok js k"
    by (rule signup_begin_pending_ok)
  with suspend.IH show ?case by simp
next
  case (resume s ks k hash now)
  then have "pending_ok js k" by simp
  with resume.IH have "stored_ok js (snd (signup_finish hash now k s))"
    by (simp add: signup_finish_ok)
  moreover from resume.IH have "\<forall>k' \<in> set (remove1 k ks). pending_ok js k'"
    by (auto dest: notin_set_remove1)
  ultimately show ?case by simp
qed

lemma signup_users:
  assumes "readDB (accounts s) = Users us" and "\<forall>u \<in> set us. string_email u"
    and "\<not> falsy n" and "e \<noteq> []" and "\<not> falsy p"
  shows "signup js hash now n (Some (JStr e)) p s =
     (if \<exists>u \<in> set us. lower_of js (acc_email u) = Some (toLowerCase js e)
      then (Reply Conflict (Error ''Email already registered''), s)
      else (case hash (the p) of
              None \<Rightarrow> (BcryptError, s)
            | Some h \<Rightarrow>
                (Reply Created (profile \<lparr>acc_id = toString now, acc_name = the n,
                                         acc_email = JStr e, acc_passwordHash = h\<rparr>),
                 s\<lparr>accounts := Stored (us @ [\<lparr>acc_id = toString now, acc_name = the n,
                                              acc_email = JStr e, acc_passwordHash = h\<rparr>])\<rparr>)))"
  using assms(1,3-5)
  by (simp add: signup_def signup_begin_def signup_finish_def some_thr_strings [OF assms(2)]
      writeDB_def Let_def split: option.splits)

lemma after_ana_eq: "after_ana = ana_store"
  by (simp add: after_ana_def ana_store_def signup_def signup_begin_def signup_finish_def
      fresh_eq readDB_def writeDB_def env0_def hash0_def ana_def toString_5 Let_def)

lemma after_numeric_eq:
  "after_numeric = \<lparr>accounts = Stored [numeric], universities = Absent, applications = Stored []\<rparr>"
  by (simp add: after_numeric_def signup_def signup_begin_def signup_finish_def
      fresh_eq readDB_def writeDB_def env0_def hash0_def numeric_def toString_5 Let_def)

text \<open>
  C1, as stated, fails. A signup whose email is the number 123 passes the presence
  check, meets no account on a fresh deployment and is stored. In the store it leaves,
  a signup with a string email that matches no account is answered neither Conflict nor
  Created: the comparison of line 36 throws. And of two signups that both began on the
  fresh deployment, the one that finishes second writes the collection it read, so Ana's
  account is discarded instead of Bob's being appended to it.
\<close>

theorem signup_throws_after_numeric_email:
  "reachable js0 (after_numeric, [])
   \<and> readDB (accounts after_numeric) = Users [numeric]
   \<and> acc_email numeric = JNum 123
   \<and> signup js0 hash0 6 (Some (JStr ''Ana'')) (Some (JStr ''Ana@X.com''))
        (Some (JStr ''pw123'')) after_numeric
       = (TypeError, after_numeric)
   \<and> signup_begin js0 (Some (JStr ''Ana'')) (Some (JStr ''Ana@X.com'')) (Some (JStr ''pw123''))
        (fresh :: unit store) = Inr ana_pending
   \<and> signup_begin js0 (Some (JStr ''Bob'')) (Some (JStr ''bob@x.com'')) (Some (JStr ''pw999''))
        (fresh :: unit store) = Inr bob_pending
   \<and> signup_finish hash0 5 ana_pending (fresh :: unit store)
       = (Reply Created (profile ana), ana_store)
   \<and> signup_finish hash0 6 bob_pending ana_store
       = (Reply Created (profile bob), ana_store\<lparr>accounts := Stored [bob]\<rparr>)"
proof -
  have "reachable js0 (after_numeric, [])"
    unfolding after_numeric_def by (rule reachable.serve [OF reachable.start])
  moreover have "signup js0 hash0 6 (Some (JStr ''Ana'')) (Some (JStr ''Ana@X.com''))
        (Some (JStr ''pw123'')) after_numeric = (TypeError, after_numeric)"
    by (simp add: after_numeric_eq signup_def signup_begin_def readDB_def numeric_def
        same_lower_def lower_of_def)
  moreover have "signup_begin js0 (Some (JStr ''Ana'')) (Some (JStr ''Ana@X.com''))
        (Some (JStr ''pw123'')) (fresh :: unit store) = Inr ana_pending"
    "signup_begin js0 (Some (JStr ''Bob'')) (Some (JStr ''bob@x.com'')) (Some (JStr ''pw999''))
        (fresh :: unit store) = Inr bob_pending"
    by (simp_all add: signup_begin_def fresh_simps readDB_def ana_pending_def bob_pending_def)
  moreover have "signup_finish hash0 5 ana_pending (fresh :: unit store)
       = (Reply Created (profile ana), ana_store)"
    "signup_finish hash0 6 bob_pending ana_store
       = (Reply Created (profile bob), ana_store\<lparr>accounts := Stored [bob]\<rparr>)"
    by (simp_all add: signup_finish_def ana_pending_def bob_pending_def hash0_def toString_5
        ana_def bob_def ana_store_def fresh_eq writeDB_def Let_def)
  ultimately show ?thesis
    by (simp add: after_numeric_eq readDB_def numeric_def)
qed

text \<open>
  C1, amended. In every configuration the server reaches, whatever the JSON types of
  the requests and however the signups overlap, the accounts load as a collection in
  which no two emails are equal ignoring case. Where moreover every stored email is a
  string, a signup that passes the presence check with a string email and runs without
  another handler in between is answered Conflict, the store left as it was, when its
  email equals a stored one ignoring case; otherwise, when bcrypt hashes its password,
  it is answered Created after appending exactly one account with the name and email
  given. Of two such signups in succession whose emails are equal ignoring case, the
  first one's password being hashed, the second is answered Conflict and changes
  nothing.
\<close>

theorem reachable_emails_unique:
  assumes "reachable js (s, ks)"
  shows "\<exists>us. readDB (accounts s) = Users us
      \<and> emails_unique js us
      \<and> ((\<forall>u \<in> set us. string_email u) \<longrightarrow>
           (\<forall>hash now n e p. \<not> falsy n \<and> e \<noteq> [] \<and> \<not> falsy p \<longrightarrow>
              (if \<exists>u \<in> set us. lower_of js (acc_email u) = Some (toLowerCase js e)
               then signup js hash now n (Some (JStr e)) p s
                      = (Reply Conflict (Error ''Email already registered''), s)
               else \<forall>h. hash (the p) = Some h \<longrightarrow>
                      signup js hash now n (Some (JStr e)) p s
                        = (Reply Created
                             (profile \<lparr>acc_id = toString now, acc_name = the n,
                                       acc_email = JStr e, acc_passwordHash = h\<rparr>),
                           s\<lparr>accounts :=
                               Stored (us @ [\<lparr>acc_id = toString now, acc_name = the n,
                                             acc_email = JStr e, acc_passwordHash = h\<rparr>])\<rparr>))))
      \<and> ((\<forall>u \<in> set us. string_email u) \<longrightarrow>
           (\<forall>hash now n e p h hash' now' n' e' p'.
              \<not> falsy n \<and> e \<noteq> [] \<and> \<not> falsy p \<and> hash (the p) = Some h
              \<and> \<not> falsy n' \<and> e' \<noteq> [] \<and> \<not> falsy p'
              \<and> toLowerCase js e' = toLowerCase js e \<longrightarrow>
              signup js hash' now' n' (Some (JStr e')) p'
                  (snd (signup js hash now n (Some (JStr e)) p s))
                = (Reply Conflict (Error ''Email already registered''),
                   snd (signup js hash now n (Some (JStr e)) p s))))"
proof -
  from reachable_ok [OF assms] obtain us where us: "readDB (accounts s) = Users us"
    and unique: "emails_unique js us"
    by (auto simp: stored_ok_def)
  have one: "(\<forall>u \<in> set us. string_email u) \<longrightarrow>
           (\<forall>hash now n e p. \<not> falsy n \<and> e \<noteq> [] \<and> \<not> falsy p \<longrightarrow>
              (if \<exists>u \<in> set us. lower_of js (acc_email u) = Some (toLowerCase js e)
               then signup js hash now n (Some (JStr e)) p s
                      = (Reply Conflict (Error ''Email already registered''), s)
               else \<forall>h. hash (the p) = Some h \<longrightarrow>
                      signup js hash now n (Some (JStr e)) p s
                        = (Reply Created
                             (profile \<lparr>acc_id = toString now, acc_name = the n,
                                       acc_email = JStr e, acc_passwordHash = h\<rparr>),
                           s\<lparr>accounts :=
                               Stored (us @ [\<lparr>acc_id = toString now, acc_name = the n,
                                             acc_email = JStr e, acc_passwordHash = h\<rparr>])\<rparr>)))"
  proof (intro allI impI)
    fix hash :: "json \<Rightarrow> string option" and now :: nat and n p :: field and e :: string
    assume strings: "\<forall>u \<in> set us. string_email u"
    assume "\<not> falsy n \<and> e \<noteq> [] \<and> \<not> falsy p"
    then show "if \<exists>u \<in> set us. lower_of js (acc_email u) = Some (toLowerCase js e)
               then signup js hash now n (Some (JStr e)) p s
                      = (Reply Conflict (Error ''Email already registered''), s)
               else \<forall>h. hash (the p) = Some h \<longrightarrow>
                      signup js hash now n (Some (JStr e)) p s
                        = (Reply Created
                             (profile \<lparr>acc_id = toString now, acc_name = the n,
                                       acc_email = JStr e, acc_passwordHash = h\<rparr>),
                           s\<lparr>accounts :=
                               Stored (us @ [\<lparr>acc_id = toString now, acc_name = the n,
                                             acc_email = JStr e, acc_passwordHash = h\<rparr>])\<rparr>)"
      by (simp add: signup_users [OF us strings])
  qed
  have two: "(\<forall>u \<in> set us. string_email u) \<longrightarrow>
           (\<forall>hash now n e p h hash' now' n' e' p'.
              \<not> falsy n \<and> e \<noteq> [] \<and> \<not> falsy p \<and> hash (the p) = Some h
              \<and> \<not> falsy n' \<and> e' \<noteq> [] \<and> \<not> falsy p'
              \<and> toLowerCase js e' = toLowerCase js e \<longrightarrow>
              signup js hash' now' n' (Some (JStr e')) p'
                  (snd (signup js hash now n (Some (JStr e)) p s))
                = (Reply Conflict (Error ''Email already registered''),
                   snd (signup js hash now n (Some (JStr e)) p s)))"
  proof (intro allI impI)
    fix hash hash' :: "json \<Rightarrow> string option" and now now' :: nat and n p n' p' :: field
      and e e' h :: string
    assume strings: "\<forall>u \<in> set us. string_email u"
    assume a: "\<not> falsy n \<and> e \<noteq> [] \<and> \<not> falsy p \<and> hash (the p) = Some h
              \<and> \<not> falsy n' \<and> e' \<noteq> [] \<and> \<not> falsy p'
              \<and> toLowerCase js e' = toLowerCase js e"
    let ?u = "\<lparr>acc_id = toString now, acc_name = the n, acc_email = JStr e,
               acc_passwordHash = h\<rparr>"
    let ?s1 = "snd (signup js hash now n (Some (JStr e)) p s)"
    show "signup js hash' now' n' (Some (JStr e')) p' ?s1
        = (Reply Conflict (Error ''Email already registered''), ?s1)"
    proof (cases "\<exists>u \<in> set us. lower_of js (acc_email u) = Some (toLowerCase js e)")
      case True
      with a have same: "?s1 = s"
        by (simp add: signup_users [OF us strings])
      from True a have "signup js hash' now' n' (Some (JStr e')) p' s
          = (Reply Conflict (Error ''Email already registered''), s)"
        by (simp add: signup_users [OF us strings])
      with same show ?thesis
        by simp
    next
      case False
      with a have read: "readDB (accounts ?s1) = Users (us @ [?u])"
        by (simp add: signup_users [OF us strings] readDB_def)
      from strings have strings': "\<forall>u \<in> set (us @ [?u]). string_email u"
        by (simp add: string_email_def)
      from a show ?thesis
        by (simp add: signup_users [OF read strings'] lower_of_def)
    qed
  qed
  from us unique one two show ?thesis
    by (intro exI [of _ us] conjI)
qed

theorem reachable_emails_unique_witness:
  "reachable js0 (after_ana, [])
   \<and> readDB (accounts after_ana) = Users [ana]
   \<and> emails_unique js0 [ana]
   \<and> string_email ana
   \<and> signup js0 hash0 6 (Some (JStr ''Ana2'')) (Some (JStr ''ana@x.com''))
        (Some (JStr ''pw999'')) after_ana
       = (Reply Conflict (Error ''Email already registered''), after_ana)
   \<and> signup js0 hash0 6 (Some (JStr ''Bob'')) (Some (JStr ''bob@x.com''))
        (Some (JStr ''pw999'')) after_ana
       = (Reply Created (profile bob), after_ana\<lparr>accounts := Stored [ana, bob]\<rparr>)"
proof -
  have reach: "reachable js0 (after_ana, [])"
    unfolding after_ana_def by (rule reachable.serve [OF reachable.start])
  have users: "readDB (accounts after_ana) = Users [ana]"
    by (simp add: after_ana_eq ana_store_def readDB_def)
  have strings: "string_email ana"
    by (simp add: string_email_def ana_def)
  from reachable_emails_unique [OF reach]
  obtain us where us: "readDB (accounts after_ana) = Users us"
    and unique: "emails_unique js0 us"
    and signup_there: "(\<forall>u \<in> set us. string_email u) \<longrightarrow>
           (\<forall>hash now n e p. \<not> falsy n \<and> e \<noteq> [] \<and> \<not> falsy p \<longrightarrow>
              (if \<exists>u \<in> set us. lower_of js0 (acc_email u) = Some (toLowerCase js0 e)
               then signup js0 hash now n (Some (JStr e)) p after_ana
                      = (Reply Conflict (Error ''Email already registered''), after_ana)
               else \<forall>h. hash (the p) = Some h \<longrightarrow>
                      signup js0 hash now n (Some (JStr e)) p after_ana
                        = (Reply Created
                             (profile \<lparr>acc_id = toString now, acc_name = the n,
                                       acc_email = JStr e, acc_passwordHash = h\<rparr>),
                           after_ana\<lparr>accounts :=
                               Stored (us @ [\<lparr>acc_id = toString now, acc_name = the n,
                                             acc_email = JStr e, acc_passwordHash = h\<rparr>])\<rparr>)))"
    by (elim exE conjE)
  from us users have eq: "us = [ana]"
    by simp
  from signup_there strings eq
  have here: "\<And>hash now n e p. \<not> falsy n \<and> e \<noteq> [] \<and> \<not> falsy p \<Longrightarrow>
              (if \<exists>u \<in> set [ana]. lower_of js0 (acc_email u) = Some (toLowerCase js0 e)
               then signup js0 hash now n (Some (JStr e)) p after_ana
                      = (Reply Conflict (Error ''Email already registered''), after_ana)
               else \<forall>h. hash (the p) = Some h \<longrightarrow>
                      signup js0 hash now n (Some (JStr e)) p after_ana
                        = (Reply Created
                             (profile \<lparr>acc_id = toString now, acc_name = the n,
                                       acc_email = JStr e, acc_passwordHash = h\<rparr>),
                           after_ana\<lparr>accounts :=
                               Stored ([ana] @ [\<lparr>acc_id = toString now, acc_name = the n,
                                             acc_email = JStr e, acc_passwordHash = h\<rparr>])\<rparr>))"
    by simp
  from here [of "Some (JStr ''Ana2'')" "''ana@x.com''" "Some (JStr ''pw999'')" hash0 6]
  have clash: "signup js0 hash0 6 (Some (JStr ''Ana2'')) (Some (JStr ''ana@x.com''))
        (Some (JStr ''pw999'')) after_ana
       = (Reply Conflict (Error ''Email already registered''), after_ana)"
    by (simp add: ana_def lower_of_def lower_samples)
  from here [of "Some (JStr ''Bob'')" "''bob@x.com''" "Some (JStr ''pw999'')" hash0 6]
  have fine: "signup js0 hash0 6 (Some (JStr ''Bob'')) (Some (JStr ''bob@x.com''))
        (Some (JStr ''pw999'')) after_ana
       = (Reply Created (profile bob), after_ana\<lparr>accounts := Stored [ana, bob]\<rparr>)"
    by (simp add: ana_def lower_of_def lower_samples hash0_def bob_def toString_5)
  from unique eq have "emails_unique js0 [ana]"
    by simp
  with reach users strings clash fine show ?thesis
    by simp
qed


section \<open>Login failures\<close>

text \<open>
  C2, as stated, fails. After the signup with the email 123, a login whose email
  matches no account is not answered Unauthorized: the comparison of line 54 throws. The
  same happens in a store of string emails to a login whose own email is the number 123,
  which matches no account either.
\<close>

theorem login_throws_on_numeric_email:
  "fst (signup js0 hash0 5 (Some (JStr ''Num'')) (Some (JNum 123)) (Some (JStr ''pw123''))
          (fresh :: unit store))
     = Reply Created (Profile [(''id'', JStr ''5''), (''name'', JStr ''Num''), (''email'', JNum 123)])
   \<and> accounts (snd (signup js0 hash0 5 (Some (JStr ''Num'')) (Some (JNum 123))
                      (Some (JStr ''pw123'')) (fresh :: unit store)))
       = Stored [numeric]
   \<and> fst (login js0 compare0 (Some (JStr ''bob@x.com'')) (Some (JStr ''pw123''))
            (snd (signup js0 hash0 5 (Some (JStr ''Num'')) (Some (JNum 123))
                    (Some (JStr ''pw123'')) (fresh :: unit store))))
       = TypeError
   \<and> acc_email ana \<noteq> JNum 123
   \<and> login js0 compare0 (Some (JNum 123)) (Some (JStr ''pw123'')) ana_store
       = (TypeError, ana_store)"
  by (simp add: signup_def signup_begin_def signup_finish_def login_def fresh_eq readDB_def
      writeDB_def hash0_def profile_def numeric_def toString_5 same_lower_def lower_of_def
      ana_store_def ana_def Let_def)

text \<open>
  C2, amended. In a store whose accounts load as a collection with string emails, take
  two login requests with a string email and a password that pass the presence check:
  one whose email matches no account ignoring case, and one whose email selects an
  account against whose hash bcrypt answers that the password does not verify. Both are
  answered Unauthorized with the same body and leave the store as it was, so the two
  outcomes are equal.
\<close>

theorem login_unauthorized_indistinguishable:
  assumes "readDB (accounts s) = Users us"
    and "\<forall>u \<in> set us. string_email u"
    and "e1 \<noteq> []" and "\<not> falsy p1" and "e2 \<noteq> []" and "\<not> falsy p2"
    and "\<forall>u \<in> set us. lower_of js (acc_email u) \<noteq> Some (toLowerCase js e1)"
    and "find (\<lambda>u. lower_of js (acc_email u) = Some (toLowerCase js e2)) us = Some user"
    and "compare (the p2) (acc_passwordHash user) = Some False"
  shows "login js compare (Some (JStr e1)) p1 s
           = (Reply Unauthorized (Error ''Invalid email or password''), s)
       \<and> login js compare (Some (JStr e2)) p2 s = login js compare (Some (JStr e1)) p1 s"
proof -
  from assms(7)
  have none: "find (\<lambda>u. lower_of js (acc_email u) = Some (toLowerCase js e1)) us = None"
    by (simp add: find_None_iff)
  show ?thesis
    using assms(1,3-6,8,9) none by (simp add: login_def find_thr_strings [OF assms(2)])
qed

theorem login_unauthorized_indistinguishable_witness:
  "login js0 compare0 (Some (JStr ''bob@x.com'')) (Some (JStr ''pw123'')) ana_store
     = (Reply Unauthorized (Error ''Invalid email or password''), ana_store)
   \<and> login js0 compare0 (Some (JStr ''ANA@X.COM'')) (Some (JStr ''guess'')) ana_store
     = login js0 compare0 (Some (JStr ''bob@x.com'')) (Some (JStr ''pw123'')) ana_store
   \<and> string_email ana
   \<and> compare0 (JStr ''guess'') (acc_passwordHash ana) = Some False"
  using login_unauthorized_indistinguishable
    [of ana_store "[ana]" "''bob@x.com''" "Some (JStr ''pw123'')" "''ANA@X.COM''"
        "Some (JStr ''guess'')" js0 ana compare0]
  by (simp add: ana_store_def readDB_def ana_def compare0_def lower_samples string_email_def
      lower_of_def)

text \<open>
  Should bcrypt throw on a password instead of answering, the login throws too, and only
  when the email is known: an unknown email is answered before bcrypt is called.
\<close>

lemma login_compare_throws:
  assumes "readDB (accounts s) = Users us"
    and "\<forall>u \<in> set us. string_email u" and "e \<noteq> []" and "\<not> falsy p"
    and "find (\<lambda>u. lower_of js (acc_email u) = Some (toLowerCase js e)) us = Some user"
    and "compare (the p) (acc_passwordHash user) = None"
  shows "login js compare (Some (JStr e)) p s = (BcryptError, s)"
  using assms(1,3-6) by (simp add: login_def find_thr_strings [OF assms(2)])


section \<open>Account registry: summaries and runs of signups\<close>








section \<open>Loading a damaged backing file\<close>

text \<open>
  C4. An absent, unreadable, empty or unparsable accounts file loads as the empty
  collection, and a backing file that parses as JSON without holding the collection's
  array loads as the empty sequence for the universities and for the applications. It
  does not for the accounts: \<^verbatim>\<open>readDB\<close> hands the parsed value on unchecked, signup,
  login and submit then throw on \<^verbatim>\<open>db.users\<close>, and the listing of accounts answers
  with the misshapen value itself.
\<close>

theorem misshapen_accounts_file_surfaces:
  "readDB Absent = Users [] \<and> readDB Unreadable = Users []
   \<and> readDB Blank = Users [] \<and> readDB Malformed = Users []
   \<and> readUniversities (Misshapen :: institution backing) = []
   \<and> readApplications Misshapen = []
   \<and> readDB Misshapen = NoUsers
   \<and> signup js0 (bcrypt_hash env0) 5 (Some (JStr ''Ana'')) (Some (JStr ''Ana@X.com''))
         (Some (JStr ''pw123'')) broken_accounts
        = (TypeError, broken_accounts)
   \<and> login js0 (bcrypt_compare env0) (Some (JStr ''Ana@X.com'')) (Some (JStr ''pw123''))
         broken_accounts
        = (TypeError, broken_accounts)
   \<and> submit 5 ''2024-01-01T00:00:00.000Z'' full_body broken_accounts
        = (TypeError, broken_accounts)
   \<and> listAccounts broken_accounts = (Reply OK (Accounts NoUsers), broken_accounts)"
  by (simp add: readDB_def readUniversities_def readApplications_def signup_def
      signup_begin_def login_def submit_def full_body_def listAccounts_def broken_accounts_def)


section \<open>Submitting an application\<close>

text \<open>
  C5. When the six required fields of a submission pass the presence check and the
  accounts load as a collection, the answer is Forbidden exactly when no stored account
  has an email identical, under \<^verbatim>\<open>===\<close>, to the applicant's email. The witness
  submits under an email that differs from the stored one only in case.
\<close>

theorem submit_forbidden_iff_no_exact_email:
  assumes "\<not> falsy (rq_fullName b)" and "\<not> falsy (rq_birthDate b)"
    and "\<not> falsy (rq_nationalId b)" and "\<not> falsy (rq_address b)"
    and "\<not> falsy (rq_phoneNumber b)" and "\<not> falsy (rq_college b)"
    and "readDB (accounts s) = Users us"
  shows "status_of (fst (submit now stamp b s)) = Some Forbidden
           \<longleftrightarrow> (\<forall>u \<in> set us. \<not> strict_eq_opt (Some (acc_email u)) (rq_email b))"
proof (cases "find (\<lambda>u. strict_eq_opt (Some (acc_email u)) (rq_email b)) us")
  case None
  then have "\<forall>u \<in> set us. \<not> strict_eq_opt (Some (acc_email u)) (rq_email b)"
    by (simp add: find_None_iff)
  then show ?thesis
    using assms None by (simp add: submit_def status_of_def)
next
  case (Some user)
  then have "user \<in> set us \<and> strict_eq_opt (Some (acc_email user)) (rq_email b)"
    by (auto simp: find_Some_iff in_set_conv_nth)
  then show ?thesis
    using assms Some by (auto simp: submit_def status_of_def Let_def)
qed

theorem submit_forbidden_iff_no_exact_email_witness:
  "status_of (fst (submit 5 ''t'' (full_body\<lparr>rq_email := Some (JStr ''ana@x.com'')\<rparr>) ana_store))
     = Some Forbidden
   \<and> toLowerCase js0 ''ana@x.com'' = toLowerCase js0 ''Ana@X.com''
   \<and> acc_email ana = JStr ''Ana@X.com''
   \<and> status_of (fst (submit 5 ''t'' full_body ana_store)) = Some Created"
  using submit_forbidden_iff_no_exact_email
    [of "full_body\<lparr>rq_email := Some (JStr ''ana@x.com'')\<rparr>" ana_store "[ana]" 5 "''t''"]
  by (simp add: full_body_def ana_store_def readDB_def ana_def lower_samples submit_def
      status_of_def)

text \<open>
  C6, as stated, fails: a submission in which all six required properties are present,
  \<^verbatim>\<open>fullName\<close> being the empty string, is answered InvalidInput.
\<close>

theorem submit_invalid_with_all_present:
  "rq_fullName blank_name_body \<noteq> None \<and> rq_birthDate blank_name_body \<noteq> None
   \<and> rq_nationalId blank_name_body \<noteq> None \<and> rq_address blank_name_body \<noteq> None
   \<and> rq_phoneNumber blank_name_body \<noteq> None \<and> rq_college blank_name_body \<noteq> None
   \<and> status_of (fst (submit 5 ''2024-01-01T00:00:00.000Z'' blank_name_body ana_store))
       = Some InvalidInput"
  by (simp add: blank_name_body_def full_body_def submit_def status_of_def)

lemma submit_created:
  assumes "submit now stamp b s = (Reply Created bd, s')"
  shows "\<exists>a. applications s' = Stored (readApplications (applications s) @ [a])
             \<and> app_status a = ''Pending'' \<and> app_submittedAt a = stamp"
  using assms
  by (auto simp: submit_def Let_def writeApplications_def
      split: if_splits db.splits option.splits)

lemma submit_invalid_iff:
  "status_of (fst (submit now stamp b s)) = Some InvalidInput
     \<longleftrightarrow> falsy (rq_fullName b) \<or> falsy (rq_birthDate b) \<or> falsy (rq_nationalId b)
          \<or> falsy (rq_address b) \<or> falsy (rq_phoneNumber b) \<or> falsy (rq_college b)"
  by (simp add: submit_def status_of_def Let_def split: db.splits option.splits)

text \<open>
  C6, amended. A submission is answered InvalidInput if and only if at least one of
  fullName, birthDate, nationalId, address, phoneNumber, college is absent or falsy, that
  is \<^verbatim>\<open>null\<close>, \<^verbatim>\<open>false\<close>, zero or the empty string; whatever total and paymentMethod
  are, absent included, makes no difference to that; and a submission answered Created
  has appended one record to the applications, with status Pending and the creation
  timestamp.
\<close>

theorem submit_invalid_iff_unset:
  "(status_of (fst (submit now stamp b s)) = Some InvalidInput
      \<longleftrightarrow> unset (rq_fullName b) \<or> unset (rq_birthDate b) \<or> unset (rq_nationalId b)
           \<or> unset (rq_address b) \<or> unset (rq_phoneNumber b) \<or> unset (rq_college b))
   \<and> (status_of (fst (submit now stamp (b\<lparr>rq_total := t, rq_paymentMethod := pm\<rparr>) s))
         = Some InvalidInput
      \<longleftrightarrow> status_of (fst (submit now stamp b s)) = Some InvalidInput)
   \<and> (\<forall>bd s'. submit now stamp b s = (Reply Created bd, s') \<longrightarrow>
         (\<exists>a. applications s' = Stored (readApplications (applications s) @ [a])
              \<and> app_status a = ''Pending'' \<and> app_submittedAt a = stamp))"
  by (simp add: submit_invalid_iff falsy_unset) (blast dest: submit_created)

theorem submit_invalid_iff_unset_witness:
  "status_of (fst (submit 5 ''2024-01-01T00:00:00.000Z'' full_body ana_store)) = Some Created
   \<and> rq_total full_body = None \<and> rq_paymentMethod full_body = None
   \<and> status_of (fst (submit 5 ''2024-01-01T00:00:00.000Z''
                        (full_body\<lparr>rq_nationalId := Some (JNum 0)\<rparr>) ana_store))
       = Some InvalidInput
   \<and> (\<exists>a. applications (snd (submit 5 ''2024-01-01T00:00:00.000Z'' full_body ana_store))
            = Stored [a]
          \<and> app_status a = ''Pending'' \<and> app_submittedAt a = ''2024-01-01T00:00:00.000Z'')"
proof -
  have run: "submit 5 ''2024-01-01T00:00:00.000Z'' full_body ana_store
      = (Reply Created (Submitted ''Application submitted successfully'' 5),
         snd (submit 5 ''2024-01-01T00:00:00.000Z'' full_body ana_store))"
    by (simp add: submit_def full_body_def ana_store_def readDB_def ana_def)
  from submit_invalid_iff_unset
         [of 5 "''2024-01-01T00:00:00.000Z''" full_body ana_store None None] run
  have "\<exists>a. applications (snd (submit 5 ''2024-01-01T00:00:00.000Z'' full_body ana_store))
             = Stored (readApplications (applications ana_store) @ [a])
           \<and> app_status a = ''Pending'' \<and> app_submittedAt a = ''2024-01-01T00:00:00.000Z''"
    by blast
  moreover have "readApplications (applications ana_store) = []"
    by (simp add: ana_store_def readApplications_def)
  moreover have "status_of (fst (submit 5 ''2024-01-01T00:00:00.000Z'' full_body ana_store))
      = Some Created"
    by (subst run) (simp add: status_of_def)
  moreover from submit_invalid_iff_unset
         [of 5 "''2024-01-01T00:00:00.000Z''" "full_body\<lparr>rq_nationalId := Some (JNum 0)\<rparr>"
             ana_store None None]
  have "status_of (fst (submit 5 ''2024-01-01T00:00:00.000Z''
                        (full_body\<lparr>rq_nationalId := Some (JNum 0)\<rparr>) ana_store))
       = Some InvalidInput"
    by (simp add: unset_def)
  ultimately show ?thesis
    by (simp add: full_body_def)
qed


section \<open>Institution catalog: create, look up, replace\<close>

lemma findIndex_None_iff: "findIndex P xs = None \<longleftrightarrow> (\<forall>x \<in> set xs. \<not> P x)"
  by (induction xs) (auto split: option.splits)

lemma findIndex_Some:
  "findIndex P xs = Some i \<Longrightarrow> i < length xs \<and> P (xs ! i) \<and> (\<forall>j < i. \<not> P (xs ! j))"
proof (induction xs arbitrary: i)
  case Nil
  then show ?case by simp
next
  case (Cons x xs)
  show ?case
  proof (cases "P x")
    case True
    with Cons.prems show ?thesis by simp
  next
    case False
    with Cons.prems obtain k where k: "findIndex P xs = Some k" "i = Suc k"
      by (auto split: option.splits)
    from Cons.IH [OF k(1)] False k(2) show ?thesis
      by (auto simp: nth_Cons split: nat.splits)
  qed
qed

lemma find_update_first:
  "findIndex P xs = Some i \<Longrightarrow> P y \<Longrightarrow> find P (xs[i := y]) = Some y"
proof (induction xs arbitrary: i)
  case Nil
  then show ?case by simp
next
  case (Cons x xs)
  then show ?case
    by (cases "P x") (auto split: option.splits)
qed

lemma find_append_fresh:
  "\<forall>x \<in> set xs. \<not> P x \<Longrightarrow> P y \<Longrightarrow> find P (xs @ [y]) = Some y"
  by (induction xs) auto

lemma find_append_old: "find P xs = Some x \<Longrightarrow> find P (xs @ ys) = Some x"
  by (induction xs) (auto split: if_splits)

lemma read_written [simp]:
  "readUniversities (universities (writeUniversities items s)) = items"
  by (simp add: writeUniversities_def readUniversities_def)

text \<open>
  C7, as stated, fails: two institutions created at the same reading of the clock receive
  the same id; the second create returns its record, and a lookup under the id that
  record carries answers with the first one.
\<close>

theorem create_lookup_finds_older_record:
  "fst (create 1700000000000 beta (snd (create 1700000000000 alpha fresh)))
     = Reply Created (Institution (beta\<lparr>uni_id := 1700000000000\<rparr>))
   \<and> fst (getById 1700000000000
            (snd (create 1700000000000 beta (snd (create 1700000000000 alpha fresh)))))
     = Reply OK (Institution (alpha\<lparr>uni_id := 1700000000000\<rparr>))
   \<and> alpha\<lparr>uni_id := 1700000000000\<rparr> \<noteq> beta\<lparr>uni_id := 1700000000000\<rparr>"
  by (simp add: create_def getById_def fresh_simps alpha_def beta_def readUniversities_def
      writeUniversities_def Let_def)

text \<open>
  C7, amended. Every create answers Created with the client's record under the id
  derived from the clock, whatever id the client's record carried: the outcome does not
  depend on it. When no stored institution already has that id, a lookup under it in the
  store create leaves answers with the record create returned; when one has, the lookup
  answers with the first stored institution of that id instead.
\<close>

theorem create_then_getById:
  "fst (create now body s) = Reply Created (Institution (body\<lparr>uni_id := int now\<rparr>))
   \<and> create now (body\<lparr>uni_id := j\<rparr>) s = create now body s
   \<and> ((\<forall>u \<in> set (readUniversities (universities s)). uni_id u \<noteq> int now) \<longrightarrow>
        getById (int now) (snd (create now body s))
          = (Reply OK (Institution (body\<lparr>uni_id := int now\<rparr>)), snd (create now body s)))
   \<and> (\<forall>old. find (\<lambda>u. uni_id u = int now) (readUniversities (universities s)) = Some old \<longrightarrow>
        getById (int now) (snd (create now body s))
          = (Reply OK (Institution old), snd (create now body s)))"
proof -
  let ?new = "body\<lparr>uni_id := int now\<rparr>"
  let ?data = "readUniversities (universities s)"
  have one: "fst (create now body s) = Reply Created (Institution ?new)"
    by (simp add: create_def Let_def)
  have two: "create now (body\<lparr>uni_id := j\<rparr>) s = create now body s"
    by (simp add: create_def Let_def)
  have three: "(\<forall>u \<in> set ?data. uni_id u \<noteq> int now) \<longrightarrow>
        getById (int now) (snd (create now body s))
          = (Reply OK (Institution ?new), snd (create now body s))"
  proof
    assume "\<forall>u \<in> set ?data. uni_id u \<noteq> int now"
    then have "find (\<lambda>u. uni_id u = int now) (?data @ [?new]) = Some ?new"
      by (intro find_append_fresh) auto
    then show "getById (int now) (snd (create now body s))
          = (Reply OK (Institution ?new), snd (create now body s))"
      by (simp add: create_def getById_def Let_def)
  qed
  have four: "\<forall>old. find (\<lambda>u. uni_id u = int now) ?data = Some old \<longrightarrow>
        getById (int now) (snd (create now body s))
          = (Reply OK (Institution old), snd (create now body s))"
  proof (intro allI impI)
    fix old
    assume "find (\<lambda>u. uni_id u = int now) ?data = Some old"
    then have "find (\<lambda>u. uni_id u = int now) (?data @ [?new]) = Some old"
      by (rule find_append_old)
    then show "getById (int now) (snd (create now body s))
          = (Reply OK (Institution old), snd (create now body s))"
      by (simp add: create_def getById_def Let_def)
  qed
  from one two three four show ?thesis
    by (intro conjI)
qed

theorem create_then_getById_witness:
  "fst (create 5 beta alpha_store) = Reply Created (Institution (beta\<lparr>uni_id := 5\<rparr>))
   \<and> uni_id beta = 99
   \<and> getById 5 (snd (create 5 beta alpha_store))
       = (Reply OK (Institution (beta\<lparr>uni_id := 5\<rparr>)), snd (create 5 beta alpha_store))
   \<and> getById 1 (snd (create 1 beta alpha_store))
       = (Reply OK (Institution alpha), snd (create 1 beta alpha_store))"
proof -
  have data: "readUniversities (universities alpha_store) = [alpha]"
    by (simp add: alpha_store_def readUniversities_def)
  have free: "\<forall>u \<in> set (readUniversities (universities alpha_store)). uni_id u \<noteq> int 5"
    by (simp add: data alpha_def)
  have taken: "find (\<lambda>u. uni_id u = int 1) (readUniversities (universities alpha_store))
      = Some alpha"
    by (simp add: data alpha_def)
  from create_then_getById [of 5 beta alpha_store 99] free
  have a: "fst (create 5 beta alpha_store) = Reply Created (Institution (beta\<lparr>uni_id := int 5\<rparr>))
      \<and> getById (int 5) (snd (create 5 beta alpha_store))
          = (Reply OK (Institution (beta\<lparr>uni_id := int 5\<rparr>)), snd (create 5 beta alpha_store))"
    by blast
  from create_then_getById [of 1 beta alpha_store 99] taken
  have b: "getById (int 1) (snd (create 1 beta alpha_store))
          = (Reply OK (Institution alpha), snd (create 1 beta alpha_store))"
    by blast
  from a b show ?thesis
    by (simp add: beta_def)
qed

text \<open>
  C8. Replace under a path id that no stored institution has answers NotFound and leaves
  the store as it was. Otherwise the first stored record with that id, at position
  \<open>index\<close>, is overwritten by the client's record with its id set to the path id, whatever
  id the client's record carried; the reply is that record, and so is the answer of a
  lookup under the path id afterwards.
\<close>

theorem replace_forces_path_id:
  "((\<forall>u \<in> set (readUniversities (universities s)). uni_id u \<noteq> i) \<longrightarrow>
       replace i body s = (Reply NotFound (Error ''University not found''), s))
   \<and> ((\<exists>u \<in> set (readUniversities (universities s)). uni_id u = i) \<longrightarrow>
       (\<exists>index < length (readUniversities (universities s)).
           uni_id (readUniversities (universities s) ! index) = i
         \<and> (\<forall>j < index. uni_id (readUniversities (universities s) ! j) \<noteq> i)
         \<and> replace i body s
             = (Reply OK (Institution (body\<lparr>uni_id := i\<rparr>)),
                s\<lparr>universities :=
                    Stored ((readUniversities (universities s))[index := body\<lparr>uni_id := i\<rparr>])\<rparr>))
       \<and> getById i (snd (replace i body s))
           = (Reply OK (Institution (body\<lparr>uni_id := i\<rparr>)), snd (replace i body s)))"
proof (cases "findIndex (\<lambda>u. uni_id u = i) (readUniversities (universities s))")
  case None
  then have "\<forall>u \<in> set (readUniversities (universities s)). uni_id u \<noteq> i"
    by (simp add: findIndex_None_iff)
  with None show ?thesis
    by (simp add: replace_def Let_def)
next
  case (Some index)
  let ?data = "readUniversities (universities s)"
  let ?new = "body\<lparr>uni_id := i\<rparr>"
  from findIndex_Some [OF Some]
  have ix: "index < length ?data" "uni_id (?data ! index) = i"
      "\<forall>j < index. uni_id (?data ! j) \<noteq> i"
    by auto
  have run: "replace i body s
      = (Reply OK (Institution ?new), s\<lparr>universities := Stored (?data[index := ?new])\<rparr>)"
    using Some by (simp add: replace_def Let_def writeUniversities_def)
  have "find (\<lambda>u. uni_id u = i) (?data[index := ?new]) = Some ?new"
    using Some by (intro find_update_first) auto
  then have look: "getById i (snd (replace i body s))
      = (Reply OK (Institution ?new), snd (replace i body s))"
    by (simp add: run getById_def readUniversities_def)
  have absent: "\<not> (\<forall>u \<in> set ?data. uni_id u \<noteq> i)"
    using ix(1,2) nth_mem by blast
  have found: "\<exists>index < length ?data.
        uni_id (?data ! index) = i \<and> (\<forall>j < index. uni_id (?data ! j) \<noteq> i)
      \<and> replace i body s
          = (Reply OK (Institution ?new), s\<lparr>universities := Stored (?data[index := ?new])\<rparr>)"
    using ix run by (intro exI [of _ index]) simp
  from absent found look show ?thesis
    by (intro conjI impI) (simp_all only: simp_thms)
qed

theorem replace_forces_path_id_witness:
  "replace 1 beta alpha_store
     = (Reply OK (Institution (beta\<lparr>uni_id := 1\<rparr>)),
        alpha_store\<lparr>universities := Stored [beta\<lparr>uni_id := 1\<rparr>]\<rparr>)
   \<and> uni_id beta = 99
   \<and> getById 1 (snd (replace 1 beta alpha_store))
       = (Reply OK (Institution (beta\<lparr>uni_id := 1\<rparr>)), snd (replace 1 beta alpha_store))
   \<and> replace 2 beta alpha_store = (Reply NotFound (Error ''University not found''), alpha_store)"
proof -
  have data: "readUniversities (universities alpha_store) = [alpha]"
    by (simp add: alpha_store_def readUniversities_def)
  have here: "\<exists>u \<in> set (readUniversities (universities alpha_store)). uni_id u = 1"
    by (simp add: data alpha_def)
  have nowhere: "\<forall>u \<in> set (readUniversities (universities alpha_store)). uni_id u \<noteq> 2"
    by (simp add: data alpha_def)
  from replace_forces_path_id [of alpha_store 1 beta] here
  have hit: "(\<exists>index < length (readUniversities (universities alpha_store)).
        replace 1 beta alpha_store
          = (Reply OK (Institution (beta\<lparr>uni_id := 1\<rparr>)),
             alpha_store\<lparr>universities :=
               Stored ((readUniversities (universities alpha_store))[index := beta\<lparr>uni_id := 1\<rparr>])\<rparr>))
      \<and> getById 1 (snd (replace 1 beta alpha_store))
          = (Reply OK (Institution (beta\<lparr>uni_id := 1\<rparr>)), snd (replace 1 beta alpha_store))"
    by blast
  from replace_forces_path_id [of alpha_store 2 beta] nowhere
  have miss: "replace 2 beta alpha_store
      = (Reply NotFound (Error ''University not found''), alpha_store)"
    by blast
  from hit have "replace 1 beta alpha_store
      = (Reply OK (Institution (beta\<lparr>uni_id := 1\<rparr>)),
         alpha_store\<lparr>universities := Stored [beta\<lparr>uni_id := 1\<rparr>]\<rparr>)"
    by (auto simp: data)
  with hit miss show ?thesis
    by (simp add: beta_def)
qed


section \<open>Institution catalog: query\<close>

text \<open>
  C9, as stated, fails: create stores the body \<^verbatim>\<open>{}\<close> as an institution without a
  name, and in the catalog it leaves a query with a name filter throws at line 84
  instead of answering.
\<close>

theorem query_throws_on_nameless:
  "fst (create 5 nameless fresh) = Reply Created (Institution (nameless\<lparr>uni_id := 5\<rparr>))
   \<and> fst (query js0 (Some (JStr ''a'')) None None (snd (create 5 nameless fresh))) = TypeError"
  by (simp add: create_def query_def name_filter_def nameless_def fresh_simps
      readUniversities_def writeUniversities_def Let_def)

lemma name_filter_readable:
  assumes "\<not> falsy q \<longrightarrow> (\<forall>u \<in> set data. string_name u)"
  shows "name_filter js q data
           = Some (filter (\<lambda>u. \<not> falsy q \<longrightarrow> name_matches js (the q) u) data)"
proof (cases "falsy q")
  case True
  then show ?thesis by (simp add: name_filter_def)
next
  case False
  with assms have names: "\<forall>u \<in> set data. string_name u"
    by simp
  have "filter_thr
          (\<lambda>u. case uni_name u of
                  None \<Rightarrow> None
                | Some n \<Rightarrow>
                    (case lower_of js n of
                       None \<Rightarrow> None
                     | Some l \<Rightarrow> Some (str_includes l (toLowerCase js (js_String js (the q))))))
          data
        = Some (filter (name_matches js (the q)) data)"
  proof (rule filter_thr_total, rule ballI)
    fix u assume "u \<in> set data"
    with names have "string_name u" by simp
    then show "(case uni_name u of
                  None \<Rightarrow> None
                | Some n \<Rightarrow>
                    (case lower_of js n of
                       None \<Rightarrow> None
                     | Some l \<Rightarrow> Some (str_includes l (toLowerCase js (js_String js (the q))))))
               = Some (name_matches js (the q) u)"
      by (auto simp: string_name_def name_matches_def lower_of_def str_includes_sublist
          split: option.splits json.splits)
  qed
  with False show ?thesis
    by (simp add: name_filter_def Let_def)
qed

lemma type_filter_eq:
  "type_filter ty data = filter (\<lambda>u. \<not> falsy ty \<longrightarrow> type_matches (the ty) u) data"
  by (cases ty) (auto simp: type_filter_def type_matches_def intro!: filter_cong)

lemma has_college_readable:
  assumes "colleges_readable u" and "\<not> falsy college"
  shows "has_college college u = Some (college_matches (the college) u)"
proof (cases "falsy (uni_colleges u)")
  case True
  then show ?thesis
    by (auto simp: has_college_def college_matches_def colleges_list_def falsy_def
        split: option.splits json.splits)
next
  case False
  with assms(1) obtain cs where cs: "uni_colleges u = Some (JArr cs)" "JNull \<notin> set cs"
    by (auto simp: colleges_readable_def split: option.splits json.splits)
  from assms(2) obtain c where c: "college = Some c"
    by (cases college) auto
  have "some_thr (\<lambda>x. case college_name x of None \<Rightarrow> None
                      | Some n \<Rightarrow> Some (strict_eq_opt n (Some c))) cs
      = Some (\<exists>x \<in> set cs. named c x)"
  proof (rule some_thr_total, rule ballI)
    fix x assume "x \<in> set cs"
    with cs(2) have "x \<noteq> JNull" by auto
    then show "(case college_name x of None \<Rightarrow> None
                | Some n \<Rightarrow> Some (strict_eq_opt n (Some c))) = Some (named c x)"
      by (cases x) (simp_all add: college_name_def named_def)
  qed
  with False cs c show ?thesis
    by (simp add: has_college_def college_matches_def colleges_list_def)
qed

lemma college_filter_readable:
  assumes "\<not> falsy college \<longrightarrow> (\<forall>u \<in> set data. colleges_readable u)"
  shows "college_filter college data
           = Some (filter (\<lambda>u. \<not> falsy college \<longrightarrow> college_matches (the college) u) data)"
proof (cases "falsy college")
  case True
  then show ?thesis by (simp add: college_filter_def)
next
  case False
  with assms have "\<forall>u \<in> set data. has_college college u
      = Some (college_matches (the college) u)"
    by (simp add: has_college_readable)
  then have "filter_thr (has_college college) data
      = Some (filter (college_matches (the college)) data)"
    by (rule filter_thr_total)
  with False show ?thesis
    by (simp add: college_filter_def)
qed

text \<open>
  C9, amended. Take any catalog and any combination of the three filters, a filter
  being supplied when its value is truthy. Provided every stored institution has a
  string name when the name filter is supplied, and colleges that are falsy or an array
  without \<^verbatim>\<open>null\<close> elements when the college filter is supplied, the query answers
  with exactly the stored institutions, in stored order, that satisfy all the supplied
  filters, and the total it reports is the number of items it returns.
\<close>

theorem query_is_conjunctive_filter:
  assumes "\<not> falsy q \<longrightarrow> (\<forall>u \<in> set (readUniversities (universities s)). string_name u)"
    and "\<not> falsy college
           \<longrightarrow> (\<forall>u \<in> set (readUniversities (universities s)). colleges_readable u)"
  shows "query js q ty college s
     = (Reply OK (Items (filter (satisfies_filters js q ty college)
                           (readUniversities (universities s)))
                    (length (filter (satisfies_filters js q ty college)
                               (readUniversities (universities s))))), s)"
proof -
  let ?data = "readUniversities (universities s)"
  let ?named = "filter (\<lambda>u. \<not> falsy q \<longrightarrow> name_matches js (the q) u) ?data"
  have n: "name_filter js q ?data = Some ?named"
    using assms(1) by (rule name_filter_readable)
  from assms(2) have "\<not> falsy college
      \<longrightarrow> (\<forall>u \<in> set (type_filter ty ?named). colleges_readable u)"
    by (simp add: type_filter_eq)
  then have c: "college_filter college (type_filter ty ?named)
      = Some (filter (\<lambda>u. \<not> falsy college \<longrightarrow> college_matches (the college) u)
                (type_filter ty ?named))"
    by (rule college_filter_readable)
  have "filter (\<lambda>u. \<not> falsy college \<longrightarrow> college_matches (the college) u)
          (type_filter ty ?named)
      = filter (satisfies_filters js q ty college) ?data"
    unfolding type_filter_eq satisfies_filters_def
    by (auto intro: filter_cong)
  with n c show ?thesis
    by (simp add: query_def)
qed

theorem query_is_conjunctive_filter_witness:
  "query js0 None None (Some (JStr ''Engineering'')) alpha_store
     = (Reply OK (Items [alpha] 1), alpha_store)
   \<and> query js0 None None (Some (JStr ''Arts'')) alpha_store = (Reply OK (Items [] 0), alpha_store)
   \<and> query js0 (Some (JStr ''PHA'')) (Some (JStr ''Public'')) (Some (JStr ''Engineering''))
         alpha_store
       = (Reply OK (Items [alpha] 1), alpha_store)
   \<and> query js0 (Some (JStr ''PHA'')) (Some (JStr ''Private'')) (Some (JStr ''Engineering''))
         alpha_store
       = (Reply OK (Items [] 0), alpha_store)
   \<and> string_name alpha \<and> colleges_readable alpha"
proof -
  have data: "readUniversities (universities alpha_store) = [alpha]"
    by (simp add: alpha_store_def readUniversities_def)
  have ok: "string_name alpha" "colleges_readable alpha"
    by (simp_all add: string_name_def colleges_readable_def alpha_def)
  have h1: "\<not> falsy q \<longrightarrow> (\<forall>u \<in> set (readUniversities (universities alpha_store)). string_name u)"
    for q
    by (simp add: data ok)
  have h2: "\<not> falsy c
      \<longrightarrow> (\<forall>u \<in> set (readUniversities (universities alpha_store)). colleges_readable u)" for c
    by (simp add: data ok)
  have eval: "name_matches js0 (JStr ''PHA'') alpha" "type_matches (JStr ''Public'') alpha"
    "\<not> type_matches (JStr ''Private'') alpha" "college_matches (JStr ''Engineering'') alpha"
    "\<not> college_matches (JStr ''Arts'') alpha"
    by (simp_all add: name_matches_def type_matches_def college_matches_def colleges_list_def
        named_def alpha_def js_String_def lower_samples sublist_code)
  from query_is_conjunctive_filter
      [where s = alpha_store and js = js0 and q = None and ty = None
         and college = "Some (JStr ''Engineering'')", OF h1 h2]
    query_is_conjunctive_filter
      [where s = alpha_store and js = js0 and q = None and ty = None
         and college = "Some (JStr ''Arts'')", OF h1 h2]
    query_is_conjunctive_filter
      [where s = alpha_store and js = js0 and q = "Some (JStr ''PHA'')"
         and ty = "Some (JStr ''Public'')" and college = "Some (JStr ''Engineering'')", OF h1 h2]
    query_is_conjunctive_filter
      [where s = alpha_store and js = js0 and q = "Some (JStr ''PHA'')"
         and ty = "Some (JStr ''Private'')" and college = "Some (JStr ''Engineering'')", OF h1 h2]
  show ?thesis
    by (simp add: satisfies_filters_def data eval ok)
qed


section \<open>A failed operation writes nothing\<close>

lemma signup_error: "signup js h n a b c s = (Reply st bd, s') \<Longrightarrow> is_error st \<Longrightarrow> s' = s"
  by (auto simp: signup_def signup_begin_def signup_finish_def is_error_def Let_def
      split: if_splits db.splits option.splits sum.splits)

lemma login_error: "login js cmp a b s = (Reply st bd, s') \<Longrightarrow> is_error st \<Longrightarrow> s' = s"
  by (auto simp: login_def is_error_def split: if_splits db.splits option.splits)

lemma replace_error: "replace i b s = (Reply st bd, s') \<Longrightarrow> is_error st \<Longrightarrow> s' = s"
  by (auto simp: replace_def is_error_def Let_def split: if_splits option.splits)

lemma create_error: "create n b s = (Reply st bd, s') \<Longrightarrow> is_error st \<Longrightarrow> s' = s"
  by (auto simp: create_def is_error_def Let_def)

lemma deleteUniversity_error:
  "deleteUniversity i s = (Reply st bd, s') \<Longrightarrow> is_error st \<Longrightarrow> s' = s"
  by (auto simp: deleteUniversity_def is_error_def Let_def split: if_splits)

lemma deleteApplication_error:
  "deleteApplication i s = (Reply st bd, s') \<Longrightarrow> is_error st \<Longrightarrow> s' = s"
  by (auto simp: deleteApplication_def is_error_def Let_def split: if_splits)

lemma submit_error: "submit n t b s = (Reply st bd, s') \<Longrightarrow> is_error st \<Longrightarrow> s' = s"
  by (auto simp: submit_def is_error_def Let_def split: if_splits db.splits option.splits)

lemma reads_keep:
  "listAccounts s = (r, s') \<Longrightarrow> s' = s"
  "query js q ty c s = (r, s') \<Longrightarrow> s' = s"
  "getById i s = (r, s') \<Longrightarrow> s' = s"
  "countByEmail em s = (r, s') \<Longrightarrow> s' = s"
  "listApplications s = (r, s') \<Longrightarrow> s' = s"
  by (auto simp: listAccounts_def query_def getById_def countByEmail_def listApplications_def
      Let_def split: if_splits option.splits)

lemma signup_finish_no_error:
  "signup_finish hash now k s = (Reply st bd, s') \<Longrightarrow> \<not> is_error st"
  by (auto simp: signup_finish_def is_error_def Let_def split: option.splits)

text \<open>
  C10. Whichever of the twelve operations is served, in whatever store: when it answers
  with one of the error statuses InvalidInput, Conflict, NotFound, Forbidden or
  Unauthorized, the store it leaves is the store it found, so none of the three backing
  files has been written.
\<close>

theorem error_leaves_stores_unwritten:
  "handle js e r s = (Reply st bd, s') \<Longrightarrow> is_error st \<Longrightarrow> s' = s"
  by (cases r) (auto dest: signup_error login_error replace_error deleteUniversity_error
      deleteApplication_error submit_error create_error reads_keep)

theorem error_leaves_stores_unwritten_witness:
  "handle js0 env0 (DeleteUniversity 7) (fresh :: unit store)
     = (Reply NotFound (Error ''Not found''), fresh)
   \<and> is_error NotFound
   \<and> snd (handle js0 env0 (DeleteUniversity 7) (fresh :: unit store)) = fresh"
proof -
  have run: "handle js0 env0 (DeleteUniversity 7) (fresh :: unit store)
               = (Reply NotFound (Error ''Not found''), fresh)"
    by (simp add: deleteUniversity_def readUniversities_def fresh_simps)
  have err: "is_error NotFound"
    by (simp add: is_error_def)
  from error_leaves_stores_unwritten [OF run err] run err show ?thesis
    by simp
qed

end
